(* ===== verification/Prelude.thy ===== *)
theory Prelude
  imports Main "HOL-Library.Multiset"
begin

text \<open>
  Shared vocabulary of the taskmaster development: the named collections of
  evaluation rules that the component theories fill, the model of Django's
  \<open>QueryDict\<close> (the POST payload a view receives), first-match search over a
  list of alternatives (the backtracking of Python's \<open>re\<close> module over an
  alternation, and Django's loop over date input formats), and generic lemmas on
  lists and options that the component proofs share.
\<close>

named_theorems text_simps "evaluation rules of the Python text primitives"

named_theorems clean_simps "unfolding rules of the Django form field cleaners"

named_theorems store_simps "rules about the datastore operations"

section \<open>Query dictionaries\<close>

text \<open>
  A \<open>QueryDict\<close> keeps, for every key, the list of values in the order in which they
  were posted; \<open>data.get(key)\<close> (what a widget's \<open>value_from_datadict\<close> reads)
  returns the \<^emph>\<open>last\<close> of them, or \<open>None\<close> when the key is absent.  The payload is
  modelled as the list of posted pairs.
\<close>

type_synonym query_dict = "(string \<times> string) list"

definition qd_get :: "query_dict \<Rightarrow> string \<Rightarrow> string option" where
  "qd_get d k = map_of (rev d) k"

section \<open>First match in a list of alternatives\<close>

fun first_some :: "('a \<Rightarrow> 'b option) \<Rightarrow> 'a list \<Rightarrow> 'b option" where
  "first_some f [] = None"
| "first_some f (x # xs) = (case f x of None \<Rightarrow> first_some f xs | Some y \<Rightarrow> Some y)"

section \<open>Lemmas on query dictionaries, searches and lists\<close>

lemma qd_get_Nil [simp]: "qd_get [] k = None"
  by (simp add: qd_get_def)

lemma qd_get_snoc [simp]:
  "qd_get (d @ [(k', v)]) k = (if k' = k then Some v else qd_get d k)"
  by (simp add: qd_get_def)

lemma qd_get_Cons:
  "qd_get ((k', v) # d) k = (case qd_get d k of None \<Rightarrow> (if k' = k then Some v else None) | Some w \<Rightarrow> Some w)"
  by (auto simp: qd_get_def map_add_def split: option.split)

lemma qd_get_None_iff: "qd_get d k = None \<longleftrightarrow> k \<notin> fst ` set d"
  by (simp add: qd_get_def map_of_eq_None_iff image_iff)

lemma first_some_None_iff: "first_some f xs = None \<longleftrightarrow> (\<forall>x \<in> set xs. f x = None)"
  by (induction xs) (auto split: option.splits)

lemma first_some_SomeD: "first_some f xs = Some y \<Longrightarrow> \<exists>x \<in> set xs. f x = Some y"
  by (induction xs) (auto split: option.splits)

lemma first_some_append:
  "first_some f (xs @ ys) = (case first_some f xs of None \<Rightarrow> first_some f ys | Some y \<Rightarrow> Some y)"
  by (induction xs) (auto split: option.splits)

lemma first_some_Some_first:
  "f x = Some y \<Longrightarrow> first_some f (x # xs) = Some y"
  by simp

lemma in_set_map_filter: "y \<in> set (List.map_filter f xs) \<longleftrightarrow> (\<exists>x \<in> set xs. f x = Some y)"
  by (induction xs) (auto split: option.splits)

lemma map_filter_map: "List.map_filter f (map g xs) = List.map_filter (f \<circ> g) xs"
  by (induction xs) (auto split: option.split)

lemma map_filter_cong: "(\<And>x. x \<in> set xs \<Longrightarrow> f x = g x) \<Longrightarrow> List.map_filter f xs = List.map_filter g xs"
  by (induction xs) (auto split: option.split)

lemma filter_mset_partition:
  "mset (filter P xs) + mset (filter (\<lambda>x. \<not> P x) xs) = mset xs"
  by (induction xs) auto

lemma sorted_wrt_less_snoc:
  "sorted_wrt (<) (xs @ [x :: nat]) \<longleftrightarrow> sorted_wrt (<) xs \<and> (\<forall>y \<in> set xs. y < x)"
  by (auto simp: sorted_wrt_append)

lemma distinct_snoc_fresh:
  "\<forall>y \<in> set xs. y < (n :: nat) \<Longrightarrow> distinct xs \<Longrightarrow> distinct (xs @ [n])"
  by auto

end
