(* ===== verification/PyText.thy ===== *)
theory PyText
  imports Prelude
begin

text \<open>
  The Python text primitives that Django's form fields call on a submitted value:
  \<open>str.isspace\<close> and \<open>str.strip()\<close> (used by \<open>CharField\<close> and by the temporal fields),
  decimal digits, \<open>int(str)\<close> (used when a \<open>ModelChoiceField\<close> looks a primary key up),
  and \<open>str(n)\<close> for a natural number.  A Python string is a sequence of code points;
  it is modelled as an Isabelle \<open>string\<close> whose characters stand for the code points
  0 to 255, so \<open>length\<close> is Python's \<open>len\<close> on that range.  Code points beyond 255 are
  not modelled.
\<close>

section \<open>Whitespace and strip\<close>

text \<open>
  \<open>str.isspace\<close> on the code points 0--255: \<open>\t \n \v \f \r\<close> (9--13), the four
  information separators (28--31), space (32), NEL (133) and NO-BREAK SPACE (160).
\<close>

definition py_isspace :: "char \<Rightarrow> bool" where
  "py_isspace c \<longleftrightarrow>
     (let n = (of_char c :: nat) in (9 \<le> n \<and> n \<le> 13) \<or> (28 \<le> n \<and> n \<le> 32) \<or> n = 133 \<or> n = 160)"

definition py_strip :: "string \<Rightarrow> string" where
  "py_strip s = rev (dropWhile py_isspace (rev (dropWhile py_isspace s)))"

section \<open>Decimal digits\<close>

definition is_digit :: "char \<Rightarrow> bool" where
  "is_digit c \<longleftrightarrow> 48 \<le> (of_char c :: nat) \<and> (of_char c :: nat) \<le> 57"

definition digit_val :: "char \<Rightarrow> nat" where
  "digit_val c = of_char c - 48"

definition digit_char :: "nat \<Rightarrow> char" where
  "digit_char k = char_of (48 + k)"

definition digits_val :: "string \<Rightarrow> nat" where
  "digits_val ds = foldl (\<lambda>n c. 10 * n + digit_val c) 0 ds"

section \<open>\<open>str(n)\<close> for a natural number\<close>

fun show_nat :: "nat \<Rightarrow> string" where
  "show_nat n = (if n < 10 then [digit_char n] else show_nat (n div 10) @ [digit_char (n mod 10)])"

declare show_nat.simps [simp del]

section \<open>\<open>int(str)\<close>\<close>

text \<open>
  \<open>int(s)\<close> for a string: surrounding whitespace is stripped, one optional sign, then
  decimal digits where single underscores may separate two digits.  Anything else
  raises \<open>ValueError\<close>, modelled as \<open>None\<close>.
\<close>

fun no_double_underscore :: "string \<Rightarrow> bool" where
  "no_double_underscore (a # b # cs) =
     (\<not> (a = CHR ''_'' \<and> b = CHR ''_'') \<and> no_double_underscore (b # cs))"
| "no_double_underscore _ = True"

definition py_int_literal :: "string \<Rightarrow> int option" where
  "py_int_literal t =
     (if t \<noteq> [] \<and> is_digit (hd t) \<and> is_digit (last t)
         \<and> list_all (\<lambda>c. is_digit c \<or> c = CHR ''_'') t \<and> no_double_underscore t
      then Some (int (digits_val (filter is_digit t))) else None)"

definition python_int :: "string \<Rightarrow> int option" where
  "python_int s =
     (case py_strip s of
        [] \<Rightarrow> None
      | c # t \<Rightarrow>
          (if c = CHR ''-'' then map_option uminus (py_int_literal t)
           else if c = CHR ''+'' then py_int_literal t
           else py_int_literal (c # t)))"

section \<open>Lemmas on the text primitives\<close>

lemma py_isspace_space [simp, text_simps]: "py_isspace (CHR '' '')"
  by (simp add: py_isspace_def)

lemma py_strip_Nil [simp]: "py_strip [] = []"
  by (simp add: py_strip_def)

lemma dropWhile_rev_dropWhile_idem:
  "dropWhile P (rev (dropWhile P (rev (dropWhile P xs)))) = rev (dropWhile P (rev (dropWhile P xs)))"
proof -
  let ?ys = "dropWhile P xs"
  let ?zs = "dropWhile P (rev ?ys)"
  have "\<not> P (hd (rev ?zs))" if ne: "?zs \<noteq> []"
  proof -
    have ys: "?ys \<noteq> []" using ne by (metis Nil_is_rev_conv dropWhile.simps(1))
    have "rev ?ys = takeWhile P (rev ?ys) @ ?zs" by simp
    then have "last (rev ?ys) = last ?zs" using ne by (metis last_append)
    then have "hd (rev ?zs) = hd ?ys" by (simp add: hd_rev last_rev)
    then show ?thesis using hd_dropWhile [OF ys] by simp
  qed
  then show ?thesis by (auto simp: dropWhile_eq_self_iff)
qed

lemma py_strip_idem [simp]: "py_strip (py_strip s) = py_strip s"
proof -
  let ?a = "dropWhile py_isspace s"
  have "dropWhile py_isspace (rev (dropWhile py_isspace (rev ?a))) = rev (dropWhile py_isspace (rev ?a))"
    by (rule dropWhile_rev_dropWhile_idem)
  then show ?thesis by (simp add: py_strip_def)
qed

lemma all_set_dropWhile: "(\<forall>x \<in> set (dropWhile P xs). P x) \<longleftrightarrow> (\<forall>x \<in> set xs. P x)"
  by (induction xs) auto

lemma py_strip_Nil_iff: "py_strip s = [] \<longleftrightarrow> list_all py_isspace s"
  by (simp add: py_strip_def list_all_iff all_set_dropWhile)

lemma length_py_strip: "length (py_strip s) \<le> length s"
  using length_dropWhile_le [of py_isspace "rev (dropWhile py_isspace s)"]
    length_dropWhile_le [of py_isspace s]
  by (simp add: py_strip_def)

lemma set_py_strip: "set (py_strip s) \<subseteq> set s"
proof
  fix x
  assume "x \<in> set (py_strip s)"
  then have "x \<in> set (rev (dropWhile py_isspace s))"
    unfolding py_strip_def by (auto dest: set_dropWhileD)
  then show "x \<in> set s" by (auto dest: set_dropWhileD)
qed

lemma of_char_digit_char: "k < 10 \<Longrightarrow> (of_char (digit_char k) :: nat) = 48 + k"
  by (simp add: digit_char_def)

lemma is_digit_digit_char [simp, text_simps]: "k < 10 \<Longrightarrow> is_digit (digit_char k)"
  by (simp add: is_digit_def of_char_digit_char)

lemma digit_val_digit_char [simp, text_simps]: "k < 10 \<Longrightarrow> digit_val (digit_char k) = k"
  by (simp add: digit_val_def of_char_digit_char)

lemma digit_val_lt: "is_digit c \<Longrightarrow> digit_val c < 10"
  unfolding is_digit_def digit_val_def by linarith

lemma not_isspace_digit: "is_digit c \<Longrightarrow> \<not> py_isspace c"
  by (simp add: is_digit_def py_isspace_def Let_def)

lemma digits_val_snoc [simp]: "digits_val (ds @ [c]) = 10 * digits_val ds + digit_val c"
  by (simp add: digits_val_def)

lemma digits_val_Nil [simp]: "digits_val [] = 0"
  by (simp add: digits_val_def)

lemma digits_val_single [simp]: "digits_val [c] = digit_val c"
  by (simp add: digits_val_def)

lemma show_nat_digits: "list_all is_digit (show_nat n)"
  by (induction n rule: show_nat.induct) (subst show_nat.simps, simp)

lemma show_nat_val: "digits_val (show_nat n) = n"
  by (induction n rule: show_nat.induct) (subst show_nat.simps, simp)

lemma show_nat_ne [simp]: "show_nat n \<noteq> []"
  by (subst show_nat.simps) simp

lemma no_double_underscore_digits:
  "list_all is_digit t \<Longrightarrow> no_double_underscore t"
  by (induction t rule: no_double_underscore.induct) (auto simp: is_digit_def)

lemma py_int_literal_digits:
  "t \<noteq> [] \<Longrightarrow> list_all is_digit t \<Longrightarrow> py_int_literal t = Some (int (digits_val t))"
  by (auto simp: py_int_literal_def list_all_iff no_double_underscore_digits
      intro: filter_True[symmetric])


lemma in_set_dropWhile: "\<not> P x \<Longrightarrow> x \<in> set xs \<Longrightarrow> x \<in> set (dropWhile P xs)"
  by (induction xs) auto

lemma in_set_py_strip: "x \<in> set s \<Longrightarrow> \<not> py_isspace x \<Longrightarrow> x \<in> set (py_strip s)"
  by (simp add: py_strip_def in_set_dropWhile)

lemma py_strip_ends:
  assumes "s \<noteq> []" "\<not> py_isspace (hd s)" "\<not> py_isspace (last s)"
  shows "py_strip s = s"
proof -
  have "dropWhile py_isspace s = s" using assms by (cases s) auto
  moreover have "dropWhile py_isspace (rev s) = rev s"
    using assms by (cases "rev s") (auto simp: hd_rev [symmetric])
  ultimately show ?thesis by (simp add: py_strip_def)
qed

lemma py_strip_no_space:
  "list_all (\<lambda>c. \<not> py_isspace c) s \<Longrightarrow> py_strip s = s"
proof -
  assume a: "list_all (\<lambda>c. \<not> py_isspace c) s"
  then have "dropWhile py_isspace s = s"
    by (cases s) (auto simp: dropWhile_eq_self_iff)
  moreover have "dropWhile py_isspace (rev s) = rev s"
    using a by (cases "rev s") (auto simp: dropWhile_eq_self_iff list_all_iff dest: arg_cong [where f = set])
  ultimately show ?thesis by (simp add: py_strip_def)
qed

lemma digit_not_sign: "is_digit c \<Longrightarrow> c \<noteq> CHR ''-'' \<and> c \<noteq> CHR ''+''"
  by (auto simp: is_digit_def)

lemma python_int_show_nat: "python_int (show_nat n) = Some (int n)"
proof -
  have d: "list_all is_digit (show_nat n)" by (rule show_nat_digits)
  then have "list_all (\<lambda>c. \<not> py_isspace c) (show_nat n)"
    by (auto simp: list_all_iff not_isspace_digit)
  then have s: "py_strip (show_nat n) = show_nat n" by (rule py_strip_no_space)
  obtain c t where ct: "show_nat n = c # t" by (cases "show_nat n") auto
  with d have "is_digit c" by simp
  then have "c \<noteq> CHR ''-''" "c \<noteq> CHR ''+''" using digit_not_sign by auto
  moreover have "py_int_literal (c # t) = Some (int (digits_val (c # t)))"
    using d ct by (intro py_int_literal_digits) auto
  ultimately show ?thesis using s ct show_nat_val [of n] by (simp add: python_int_def)
qed


lemma dropWhile_spaces:
  "dropWhile py_isspace (replicate i (CHR '' '') @ s) = dropWhile py_isspace s"
  by (induction i) auto

lemma py_strip_padded_digits:
  assumes "list_all is_digit s" "s \<noteq> []"
  shows "py_strip (replicate i (CHR '' '') @ s @ replicate j (CHR '' '')) = s"
proof -
  have nd: "\<not> py_isspace (hd s)" "\<not> py_isspace (last s)"
    using assms by (auto simp: list_all_iff not_isspace_digit)
  have "dropWhile py_isspace (s @ replicate j (CHR '' '')) = s @ replicate j (CHR '' '')"
    using nd assms(2) by (simp add: dropWhile_eq_self_iff)
  moreover have "dropWhile py_isspace (rev (s @ replicate j (CHR '' ''))) = rev s"
    using nd assms(2) by (simp add: dropWhile_spaces [of j "rev s", simplified] dropWhile_eq_self_iff hd_rev)
  ultimately show ?thesis by (simp add: py_strip_def dropWhile_spaces)
qed

text \<open>\<open>int()\<close> of the decimal form of \<open>n\<close>, with blanks before and after it, is \<open>n\<close>.\<close>

lemma python_int_padded_show_nat:
  "python_int (replicate i (CHR '' '') @ show_nat n @ replicate j (CHR '' '')) = Some (int n)"
proof -
  have "py_strip (replicate i (CHR '' '') @ show_nat n @ replicate j (CHR '' '')) = show_nat n"
    by (rule py_strip_padded_digits [OF show_nat_digits show_nat_ne])
  moreover have "py_strip (show_nat n) = show_nat n"
    using py_strip_padded_digits [OF show_nat_digits show_nat_ne, of 0 n 0] by simp
  ultimately show ?thesis using python_int_show_nat [of n] by (simp add: python_int_def)
qed

end
