(* ===== verification/Dates.thy ===== *)
theory Dates
  imports PyText "HOL-Library.Product_Lexorder"
begin

text \<open>
  Calendar dates as the task model stores them (\<open>Task.due_date\<close>, a \<open>DateField\<close>) and
  as Python's \<open>datetime.date\<close> represents them: a year, a month and a day, ordered
  lexicographically, which is the order \<open>order_by('due_date')\<close> sorts by.  The theory
  holds the validity check of \<open>datetime.date\<close> (\<open>_check_date_fields\<close>) and the
  printer \<open>date.isoformat()\<close>; the parser is in \<open>Strptime\<close>.
\<close>

section \<open>Dates and their order\<close>

datatype date = Date (year: nat) (month: nat) (day: nat)

instantiation date :: linorder
begin

definition less_eq_date :: "date \<Rightarrow> date \<Rightarrow> bool" where
  "less_eq_date a b \<longleftrightarrow> (year a, month a, day a) \<le> (year b, month b, day b)"

definition less_date :: "date \<Rightarrow> date \<Rightarrow> bool" where
  "less_date a b \<longleftrightarrow> (year a, month a, day a) < (year b, month b, day b)"

instance
proof
  fix x y z :: date
  show "x < y \<longleftrightarrow> x \<le> y \<and> \<not> y \<le> x"
    by (simp add: less_eq_date_def less_date_def less_le_not_le)
  show "x \<le> x" by (simp add: less_eq_date_def)
  show "x \<le> y \<Longrightarrow> y \<le> z \<Longrightarrow> x \<le> z"
    unfolding less_eq_date_def by (rule order_trans)
  show "x \<le> y \<Longrightarrow> y \<le> x \<Longrightarrow> x = y"
    unfolding less_eq_date_def by (auto intro: date.expand)
  show "x \<le> y \<or> y \<le> x"
    unfolding less_eq_date_def by (rule linear)
qed

end

section \<open>Valid dates\<close>

text \<open>
  \<open>_is_leap\<close>, \<open>_DAYS_IN_MONTH\<close> (index 0 unused), \<open>_days_in_month\<close> and the checks
  of \<open>_check_date_fields\<close>: \<open>MINYEAR <= year <= MAXYEAR\<close>, \<open>1 <= month <= 12\<close>,
  \<open>1 <= day <= dim\<close>.  The conjunction is evaluated left to right, so the table
  is only indexed with a month of 1 to 12.
\<close>

definition is_leap :: "nat \<Rightarrow> bool" where
  "is_leap y \<longleftrightarrow> y mod 4 = 0 \<and> (y mod 100 \<noteq> 0 \<or> y mod 400 = 0)"

definition days_in_month_table :: "nat list" where
  "days_in_month_table = [0, 31, 28, 31, 30, 31, 30, 31, 31, 30, 31, 30, 31]"

definition days_in_month :: "nat \<Rightarrow> nat \<Rightarrow> nat" where
  "days_in_month y m = (if m = 2 \<and> is_leap y then 29 else days_in_month_table ! m)"

definition valid_ymd :: "nat \<Rightarrow> nat \<Rightarrow> nat \<Rightarrow> bool" where
  "valid_ymd y m d \<longleftrightarrow>
     1 \<le> y \<and> y \<le> 9999 \<and> 1 \<le> m \<and> m \<le> 12 \<and> 1 \<le> d \<and> d \<le> days_in_month y m"

definition valid_date :: "date \<Rightarrow> bool" where
  "valid_date d \<longleftrightarrow> valid_ymd (year d) (month d) (day d)"

section \<open>\<open>date.isoformat()\<close>\<close>

text \<open>\<open>'%04d-%02d-%02d' % (year, month, day)\<close>; a valid year has at most four digits.\<close>

fun zero_pad :: "nat \<Rightarrow> nat \<Rightarrow> string" where
  "zero_pad 0 n = []"
| "zero_pad (Suc w) n = zero_pad w (n div 10) @ [digit_char (n mod 10)]"

definition date_isoformat :: "date \<Rightarrow> string" where
  "date_isoformat d =
     zero_pad 4 (year d) @ ''-'' @ zero_pad 2 (month d) @ ''-'' @ zero_pad 2 (day d)"

section \<open>Lemmas: digits, padding and validity\<close>

lemma zero_pad_2: "zero_pad 2 n = [digit_char (n div 10 mod 10), digit_char (n mod 10)]"
proof -
  have "zero_pad 2 n = zero_pad (Suc (Suc 0)) n" by (simp only: numeral_2_eq_2)
  then show ?thesis by simp
qed

lemma zero_pad_4:
  "zero_pad 4 n = [digit_char (n div 10 div 10 div 10 mod 10), digit_char (n div 10 div 10 mod 10),
                   digit_char (n div 10 mod 10), digit_char (n mod 10)]"
proof -
  have "(4::nat) = Suc (Suc (Suc (Suc 0)))" by simp
  then have "zero_pad 4 n = zero_pad (Suc (Suc (Suc (Suc 0)))) n" by (simp only:)
  then show ?thesis by simp
qed

lemma digits_val_two: "a < 10 \<Longrightarrow> b < 10 \<Longrightarrow> digits_val [digit_char a, digit_char b] = 10 * a + b"
  by (simp add: digits_val_def)

lemma digits4_val:
  "digits_val [digit_char (n div 10 div 10 div 10 mod 10), digit_char (n div 10 div 10 mod 10),
               digit_char (n div 10 mod 10), digit_char (n mod 10)] = n mod 10000"
proof -
  have "n mod 10000 = 10 * (n div 10 mod 1000) + n mod 10"
    using mod_mult2_eq [of n 10 1000] by simp
  moreover have "n div 10 mod 1000 = 10 * (n div 10 div 10 mod 100) + n div 10 mod 10"
    using mod_mult2_eq [of "n div 10" 10 100] by simp
  moreover have "n div 10 div 10 mod 100 = 10 * (n div 10 div 10 div 10 mod 10) + n div 10 div 10 mod 10"
    using mod_mult2_eq [of "n div 10 div 10" 10 10] by simp
  ultimately show ?thesis by (simp add: digits_val_def)
qed

lemma days_in_month_le_31: "m \<le> 12 \<Longrightarrow> days_in_month y m \<le> 31"
proof -
  assume "m \<le> 12"
  then have "m < length days_in_month_table" by (simp add: days_in_month_table_def)
  moreover have "\<forall>x \<in> set days_in_month_table. x \<le> 31" by (simp add: days_in_month_table_def)
  ultimately show ?thesis by (simp add: days_in_month_def)
qed

text \<open>
  The date check of \<open>datetime.date\<close> is the proleptic Gregorian calendar: the month
  lengths, and February's 29th day every fourth year except centuries not divisible
  by 400.
\<close>

lemma valid_ymd_gregorian:
  "valid_ymd y m d \<longleftrightarrow>
     1 \<le> y \<and> y \<le> 9999 \<and> 1 \<le> m \<and> m \<le> 12 \<and> 1 \<le> d \<and>
     d \<le> [31, if y mod 4 = 0 \<and> (y mod 100 \<noteq> 0 \<or> y mod 400 = 0) then 29 else 28,
           31, 30, 31, 30, 31, 31, 30, 31, 30, 31] ! (m - 1)"
proof -
  have "1 \<le> m \<Longrightarrow> m \<le> 12 \<Longrightarrow> days_in_month y m =
          [31, if y mod 4 = 0 \<and> (y mod 100 \<noteq> 0 \<or> y mod 400 = 0) then 29 else 28,
           31, 30, 31, 30, 31, 31, 30, 31, 30, 31] ! (m - 1)"
    by (cases m; simp add: days_in_month_def days_in_month_table_def is_leap_def nth_Cons')
  then show ?thesis by (auto simp: valid_ymd_def)
qed

lemma zero_pad_digits: "list_all is_digit (zero_pad w n)"
  by (induction w arbitrary: n) auto

lemma length_zero_pad [simp]: "length (zero_pad w n) = w"
  by (induction w arbitrary: n) auto

lemma zero_pad_no_space: "list_all (\<lambda>c. \<not> py_isspace c) (zero_pad w n)"
  by (induction w arbitrary: n) (auto simp: not_isspace_digit)

lemma date_isoformat_no_space: "list_all (\<lambda>c. \<not> py_isspace c) (date_isoformat d)"
  using zero_pad_no_space by (simp add: date_isoformat_def py_isspace_def)

lemma date_isoformat_ne: "date_isoformat d \<noteq> []"
  by (simp add: date_isoformat_def)

end
