(* ===== verification/Models.thy ===== *)
theory Models
  imports Dates
begin

text \<open>
  The data model of the \<open>tasks\<close> application (\<open>tasks/models.py\<close>, which the
  repository imports but does not ship under \<open>src/\<close>; it is modelled from the
  specification and from what the forms, views, admin and tests use of it):
  a \<open>Category\<close> with a name, and a \<open>Task\<close> with a title (\<open>CharField(max_length=100)\<close>),
  a due date (\<open>DateField\<close>), a completion flag (\<open>BooleanField(default=False)\<close>) and a
  foreign key to its category.  The datastore is a record of the two tables, each a
  list of rows in primary-key order, and the two auto-increment counters (Django's
  \<open>AutoField\<close>; SQLite's \<open>AUTOINCREMENT\<close> never reuses a key).
  \<open>objects.create(...)\<close> inserts a row with the next key and does not run model
  validation (\<open>Model.save\<close> does not call \<open>full_clean\<close>).
\<close>

section \<open>Rows and the datastore\<close>

record category =
  category_id :: nat
  category_name :: string

record task =
  task_id :: nat
  title :: string
  due_date :: date
  completed :: bool
  task_category :: nat

record store =
  categories :: "category list"
  tasks :: "task list"
  next_category_id :: nat
  next_task_id :: nat

text \<open>A fresh database: both tables empty, both sequences at 1.\<close>

definition empty_store :: store where
  "empty_store = \<lparr>categories = [], tasks = [], next_category_id = 1, next_task_id = 1\<rparr>"

text \<open>\<open>Task.title\<close>'s \<open>max_length\<close>, and the default of \<open>Task.completed\<close>.\<close>

definition title_max_length :: nat where
  "title_max_length = 100"

definition completed_default :: bool where
  "completed_default = False"

section \<open>Datastore operations\<close>

text \<open>\<open>Category.objects.create(name=n)\<close>.\<close>

definition category_create :: "store \<Rightarrow> string \<Rightarrow> store \<times> category" where
  "category_create s n =
     (let c = \<lparr>category_id = next_category_id s, category_name = n\<rparr>
      in (s\<lparr>categories := categories s @ [c], next_category_id := Suc (next_category_id s)\<rparr>, c))"

text \<open>
  \<open>Task.objects.create(title=..., due_date=..., completed=..., category=...)\<close>, and the
  \<open>INSERT\<close> that \<open>form.save()\<close> performs: the row gets the next key.  No field is
  validated here.
\<close>

definition task_create :: "store \<Rightarrow> string \<Rightarrow> date \<Rightarrow> bool \<Rightarrow> nat \<Rightarrow> store \<times> task" where
  "task_create s ti dd co ca =
     (let t = \<lparr>task_id = next_task_id s, title = ti, due_date = dd, completed = co, task_category = ca\<rparr>
      in (s\<lparr>tasks := tasks s @ [t], next_task_id := Suc (next_task_id s)\<rparr>, t))"

text \<open>\<open>Category.objects.get(pk=k)\<close>, \<open>DoesNotExist\<close> being \<open>None\<close>.\<close>

definition get_category :: "store \<Rightarrow> nat \<Rightarrow> category option" where
  "get_category s k = find (\<lambda>c. category_id c = k) (categories s)"

text \<open>\<open>Task.__str__\<close> returns the title (\<open>test_str_returns_title\<close>).\<close>

definition task_str :: "task \<Rightarrow> string" where
  "task_str t = title t"

section \<open>Well-formed datastores\<close>

text \<open>
  A title that passed validation: non-empty, at most \<open>max_length\<close> code points, no
  NUL character, and already stripped (the form stores the stripped value).
\<close>

definition title_ok :: "string \<Rightarrow> bool" where
  "title_ok t \<longleftrightarrow> t \<noteq> [] \<and> length t \<le> title_max_length \<and> CHR 0x00 \<notin> set t \<and> py_strip t = t"

definition category_ids :: "store \<Rightarrow> nat list" where
  "category_ids s = map category_id (categories s)"

definition wf_store :: "store \<Rightarrow> bool" where
  "wf_store s \<longleftrightarrow>
     sorted_wrt (<) (category_ids s) \<and> list_all (\<lambda>k. k < next_category_id s) (category_ids s) \<and>
     sorted_wrt (<) (map task_id (tasks s)) \<and> list_all (\<lambda>t. task_id t < next_task_id s) (tasks s) \<and>
     list_all (\<lambda>t. task_category t \<in> set (category_ids s)) (tasks s) \<and>
     list_all (\<lambda>t. title_ok (title t) \<and> valid_date (due_date t)) (tasks s)"

section \<open>Lemmas on the datastore\<close>

lemma get_category_Some:
  "get_category s k = Some c \<Longrightarrow> c \<in> set (categories s) \<and> category_id c = k"
  by (auto simp: get_category_def find_Some_iff)

lemma get_category_None_iff: "get_category s k = None \<longleftrightarrow> k \<notin> set (category_ids s)"
  by (auto simp: get_category_def category_ids_def find_None_iff)

lemma category_ids_task_create [simp, store_simps]:
  "category_ids (fst (task_create s ti dd co ca)) = category_ids s"
  by (simp add: task_create_def category_ids_def Let_def)

lemma tasks_task_create [simp, store_simps]:
  "tasks (fst (task_create s ti dd co ca)) =
     tasks s @ [\<lparr>task_id = next_task_id s, title = ti, due_date = dd, completed = co, task_category = ca\<rparr>]"
  by (simp add: task_create_def Let_def)

lemma snd_task_create [simp, store_simps]:
  "snd (task_create s ti dd co ca) =
     \<lparr>task_id = next_task_id s, title = ti, due_date = dd, completed = co, task_category = ca\<rparr>"
  by (simp add: task_create_def Let_def)

lemma next_task_id_task_create [simp, store_simps]:
  "next_task_id (fst (task_create s ti dd co ca)) = Suc (next_task_id s)"
  by (simp add: task_create_def Let_def)

lemma categories_task_create [simp, store_simps]:
  "categories (fst (task_create s ti dd co ca)) = categories s"
  by (simp add: task_create_def Let_def)

lemma next_category_id_task_create [simp, store_simps]:
  "next_category_id (fst (task_create s ti dd co ca)) = next_category_id s"
  by (simp add: task_create_def Let_def)

lemma wf_store_empty: "wf_store empty_store"
  by (simp add: wf_store_def empty_store_def category_ids_def)

text \<open>Inserting a task whose fields passed validation keeps the datastore well formed.\<close>

lemma wf_store_task_create:
  assumes "wf_store s" "ca \<in> set (category_ids s)" "title_ok ti" "valid_date dd"
  shows "wf_store (fst (task_create s ti dd co ca))"
proof -
  have "list_all (\<lambda>t. task_id t < next_task_id s) (tasks s)"
    using assms(1) by (simp add: wf_store_def)
  then have "\<forall>k \<in> set (map task_id (tasks s)). k < next_task_id s"
    by (simp add: list_all_iff)
  then show ?thesis
    using assms by (auto simp: wf_store_def list_all_iff sorted_wrt_append)
qed

lemma wf_store_category_create:
  assumes "wf_store s"
  shows "wf_store (fst (category_create s n))"
proof -
  have "\<forall>k \<in> set (category_ids s). k < next_category_id s"
    using assms by (simp add: wf_store_def list_all_iff)
  then show ?thesis
    using assms
    by (auto simp: wf_store_def category_create_def category_ids_def Let_def list_all_iff sorted_wrt_append)
qed

lemma wf_store_task_ids_distinct: "wf_store s \<Longrightarrow> distinct (map task_id (tasks s))"
  by (simp add: wf_store_def strict_sorted_iff)

end
