(* ===== verification/Strptime.thy ===== *)
theory Strptime
  imports Dates
begin

text \<open>
  Python's \<open>datetime.strptime(value, format)\<close> for the date directives that Django's
  English \<open>DATE_INPUT_FORMATS\<close> use (\<open>%Y %y %m %d %b %B\<close> and \<open>%%\<close>), as
  \<open>_strptime.TimeRE\<close> compiles a format and \<open>_strptime._strptime\<close> reads the match.
  \<open>TimeRE.pattern\<close> escapes the regular-expression metacharacters of the format,
  replaces every run of whitespace by \<^verbatim>\<open>\s+\<close> and each directive by its group;
  the pattern is compiled with \<open>IGNORECASE\<close> and applied with \<open>match\<close>: anchored at
  the start, the first match in backtracking order is taken, and text left after
  it raises \<open>unconverted data remains\<close>.  The groups are then converted
  (\<open>int()\<close>, the century pivot of \<open>%y\<close>, the index of a month name), a missing
  year is 1900, and the date check of \<open>datetime.date\<close> applies.
\<close>

section \<open>Case folding on code points 0 to 255\<close>

text \<open>
  \<open>str.lower\<close> on code points 0--255: \<open>A\<close>--\<open>Z\<close> and the Latin-1 capitals
  \<open>\<Agrave>\<close>--\<open>\<THORN>\<close> except the multiplication sign (215) map 32 places up.
  \<open>IGNORECASE\<close> matching of a literal compares the lowered characters.
\<close>

definition py_lower :: "char \<Rightarrow> char" where
  "py_lower c =
     (let n = (of_char c :: nat)
      in if (65 \<le> n \<and> n \<le> 90) \<or> (192 \<le> n \<and> n \<le> 222 \<and> n \<noteq> 215) then char_of (n + 32) else c)"

section \<open>Formats\<close>

datatype directive = DirY | Diry | Dirm | Dird | Dirb | DirB

datatype fmt_item = FLit char | FSpace | FDir directive

text \<open>
  The character after a \<open>%\<close>: a modelled directive, \<open>%%\<close> (a literal \<open>%\<close>), or a
  bad directive (\<open>KeyError\<close>, re-raised as \<open>ValueError\<close>).
\<close>

definition pct_item :: "char \<Rightarrow> fmt_item option" where
  "pct_item c =
     (if c = CHR ''Y'' then Some (FDir DirY)
      else if c = CHR ''y'' then Some (FDir Diry)
      else if c = CHR ''m'' then Some (FDir Dirm)
      else if c = CHR ''d'' then Some (FDir Dird)
      else if c = CHR ''b'' then Some (FDir Dirb)
      else if c = CHR ''B'' then Some (FDir DirB)
      else if c = CHR ''%'' then Some (FLit CHR ''%'')
      else None)"

text \<open>
  \<open>TimeRE.pattern\<close>: a run of whitespace is one \<^verbatim>\<open>\s+\<close>, \<open>%\<close> and the next character
  a directive, a \<open>%\<close> at the end a \<open>stray %\<close> (\<open>None\<close>), any other character a
  literal (metacharacters are escaped).
\<close>

function fmt_items :: "string \<Rightarrow> fmt_item list option" where
  "fmt_items [] = Some []"
| "fmt_items (c # cs) =
     (if py_isspace c then map_option (Cons FSpace) (fmt_items (dropWhile py_isspace cs))
      else if c = CHR ''%'' then
        (case cs of
           [] \<Rightarrow> None
         | d # ds \<Rightarrow> (case pct_item d of None \<Rightarrow> None | Some it \<Rightarrow> map_option (Cons it) (fmt_items ds)))
      else map_option (Cons (FLit c)) (fmt_items cs))"
  by pat_completeness auto

termination
  by (relation "measure length") (auto simp: le_imp_less_Suc length_dropWhile_le)

section \<open>The groups of the directives\<close>

text \<open>
  A group is an alternation of fixed-length branches; a branch is a sequence of
  character classes.  \<open>match_seq\<close> matches one branch at the start of the input and
  returns the text it consumed and the rest.
\<close>

type_synonym char_class = "char \<Rightarrow> bool"

text \<open>A digit class \<open>[lo-hi]\<close>.\<close>

definition digit_in :: "nat \<Rightarrow> nat \<Rightarrow> char_class" where
  "digit_in lo hi c \<longleftrightarrow> is_digit c \<and> lo \<le> digit_val c \<and> digit_val c \<le> hi"

fun match_seq :: "char_class list \<Rightarrow> string \<Rightarrow> (string \<times> string) option" where
  "match_seq [] s = Some ([], s)"
| "match_seq (p # ps) [] = None"
| "match_seq (p # ps) (c # cs) =
     (if p c then map_option (\<lambda>(t, r). (c # t, r)) (match_seq ps cs) else None)"

definition lit_class :: "char \<Rightarrow> char_class" where
  "lit_class c x \<longleftrightarrow> py_lower x = py_lower c"

text \<open>\<open>LocaleTime.a_month[1:]\<close> and \<open>f_month[1:]\<close> of the C locale, lowered.\<close>

definition month_abbrs :: "string list" where
  "month_abbrs = [''jan'', ''feb'', ''mar'', ''apr'', ''may'', ''jun'', ''jul'', ''aug'', ''sep'',
                  ''oct'', ''nov'', ''dec'']"

definition month_names :: "string list" where
  "month_names = [''january'', ''february'', ''march'', ''april'', ''may'', ''june'', ''july'',
                  ''august'', ''september'', ''october'', ''november'', ''december'']"

text \<open>
  \<open>TimeRE.__seqToRE\<close>: the names sorted by length, longest first (\<open>sorted\<close> with
  \<open>reverse=True\<close> is stable), as alternatives of literals.
\<close>

definition seq_to_re :: "string list \<Rightarrow> char_class list list" where
  "seq_to_re names = map (map lit_class) (sort_key (\<lambda>n. - int (length n)) names)"

text \<open>
  The groups of \<open>TimeRE\<close>:
  \<open>Y\<close> \<^verbatim>\<open>\d\d\d\d\<close>, \<open>y\<close> \<^verbatim>\<open>\d\d\<close>, \<open>m\<close> \<^verbatim>\<open>1[0-2]|0[1-9]|[1-9]\<close>,
  \<open>d\<close> \<^verbatim>\<open>3[0-1]|[1-2]\d|0[1-9]|[1-9]| [1-9]\<close>, \<open>b\<close> and \<open>B\<close> the month names.
\<close>

definition dir_alts :: "directive \<Rightarrow> char_class list list" where
  "dir_alts d =
     (case d of
        DirY \<Rightarrow> [[is_digit, is_digit, is_digit, is_digit]]
      | Diry \<Rightarrow> [[is_digit, is_digit]]
      | Dirm \<Rightarrow> [[digit_in 1 1, digit_in 0 2], [digit_in 0 0, digit_in 1 9], [digit_in 1 9]]
      | Dird \<Rightarrow> [[digit_in 3 3, digit_in 0 1], [digit_in 1 2, is_digit], [digit_in 0 0, digit_in 1 9],
                 [digit_in 1 9], [(\<lambda>c. c = CHR '' ''), digit_in 1 9]]
      | Dirb \<Rightarrow> seq_to_re month_abbrs
      | DirB \<Rightarrow> seq_to_re month_names)"

section \<open>Matching with backtracking\<close>

text \<open>
  The branches of a greedy \<^verbatim>\<open>\s+\<close>: the rests after the longest run of whitespace,
  then after one character less, down to one character.
\<close>

definition space_run :: "string \<Rightarrow> string list" where
  "space_run s = map (\<lambda>k. drop k s) (rev [1..<Suc (length (takeWhile py_isspace s))])"

text \<open>
  \<open>match_items\<close> is \<open>re.match\<close> of the compiled pattern: the first way, in
  backtracking order, to match the items at the start of the input, with the named
  groups in pattern order and the unmatched rest.
\<close>

primrec match_items :: "fmt_item list \<Rightarrow> string \<Rightarrow> ((directive \<times> string) list \<times> string) option" where
  "match_items [] s = Some ([], s)"
| "match_items (it # its) s =
     (case it of
        FLit c \<Rightarrow> (case s of [] \<Rightarrow> None | x # r \<Rightarrow> if lit_class c x then match_items its r else None)
      | FSpace \<Rightarrow> first_some (match_items its) (space_run s)
      | FDir d \<Rightarrow>
          first_some (\<lambda>(t, r). map_option (\<lambda>(g, r'). ((d, t) # g, r')) (match_items its r))
            (List.map_filter (\<lambda>a. match_seq a s) (dir_alts d)))"

section \<open>Reading the groups\<close>

text \<open>\<open>int()\<close> of a group's text: digits, or a blank and a digit for \<open>' [1-9]'\<close>.\<close>

definition group_int :: "string \<Rightarrow> nat" where
  "group_int t = digits_val (filter is_digit t)"

text \<open>\<open>a_month.index(found_dict['b'].lower())\<close>: the list starts with the empty name.\<close>

definition month_index :: "string list \<Rightarrow> string \<Rightarrow> nat" where
  "month_index names t = length (takeWhile (\<lambda>n. n \<noteq> map py_lower t) ([] # names))"

text \<open>
  The loop of \<open>_strptime\<close> over \<open>found_dict\<close>: year (if any), month and day, with
  the defaults month 1 and day 1; \<open>%y\<close> pivots at 68.
\<close>

fun apply_group :: "nat option \<times> nat \<times> nat \<Rightarrow> directive \<times> string \<Rightarrow> nat option \<times> nat \<times> nat" where
  "apply_group (y, m, d) (DirY, t) = (Some (group_int t), m, d)"
| "apply_group (y, m, d) (Diry, t) =
     (Some (if group_int t \<le> 68 then group_int t + 2000 else group_int t + 1900), m, d)"
| "apply_group (y, m, d) (Dirm, t) = (y, group_int t, d)"
| "apply_group (y, m, d) (Dird, t) = (y, m, group_int t)"
| "apply_group (y, m, d) (Dirb, t) = (y, month_index month_abbrs t, d)"
| "apply_group (y, m, d) (DirB, t) = (y, month_index month_names t, d)"

text \<open>
  \<open>_strptime\<close> and \<open>datetime.date\<close>: no match, data after the match, or an invalid
  date raise \<open>ValueError\<close>, modelled as \<open>None\<close>.  A missing year is 1900.
\<close>

definition strptime_items :: "fmt_item list \<Rightarrow> string \<Rightarrow> date option" where
  "strptime_items its s =
     (case match_items its s of
        None \<Rightarrow> None
      | Some (g, rest) \<Rightarrow>
          if rest \<noteq> [] then None
          else (case foldl apply_group (None, 1, 1) g of
                  (y, m, d) \<Rightarrow>
                    let yr = (case y of None \<Rightarrow> 1900 | Some v \<Rightarrow> v)
                    in if valid_ymd yr m d then Some (Date yr m d) else None))"

definition strptime_date :: "string \<Rightarrow> string \<Rightarrow> date option" where
  "strptime_date fmt s = (case fmt_items fmt of None \<Rightarrow> None | Some its \<Rightarrow> strptime_items its s)"

text \<open>The characters an item of a pattern can consume.\<close>

definition item_accepts :: "fmt_item \<Rightarrow> char \<Rightarrow> bool" where
  "item_accepts it x =
     (case it of
        FLit c \<Rightarrow> lit_class c x
      | FSpace \<Rightarrow> py_isspace x
      | FDir d \<Rightarrow> list_ex (list_ex (\<lambda>p. p x)) (dir_alts d))"

section \<open>Lemmas on the engine\<close>

lemma py_lower_low: "(of_char c :: nat) < 65 \<Longrightarrow> py_lower c = c"
  by (simp add: py_lower_def Let_def)

lemma is_digit_py_lower: "is_digit c \<Longrightarrow> py_lower c = c"
  by (simp add: is_digit_def py_lower_low)

lemma lit_class_low:
  assumes "(of_char c :: nat) < 65"
  shows "lit_class c x \<longleftrightarrow> x = c"
proof
  assume "lit_class c x"
  then have "py_lower x = c" using assms by (simp add: lit_class_def py_lower_low)
  then show "x = c" using assms
    by (auto simp: py_lower_def Let_def split: if_splits)
qed (simp add: lit_class_def)

lemma match_seq_SomeD:
  "match_seq ps s = Some (t, r) \<Longrightarrow> s = t @ r \<and> list_all2 (\<lambda>p c. p c) ps t"
  by (induction ps s arbitrary: t rule: match_seq.induct) (auto split: if_splits)

lemma match_seq_append:
  "list_all2 (\<lambda>p c. p c) ps t \<Longrightarrow> match_seq ps (t @ r) = Some (t, r)"
  by (induction ps t rule: list_all2_induct) auto

lemma space_run_Nil [simp]: "space_run [] = []"
  by (simp add: space_run_def)

lemma space_run_no_space: "\<not> py_isspace x \<Longrightarrow> space_run (x # s) = []"
  by (simp add: space_run_def)

lemma space_run_one:
  "py_isspace x \<Longrightarrow> s = [] \<or> \<not> py_isspace (hd s) \<Longrightarrow> space_run (x # s) = [s]"
  by (cases s) (auto simp: space_run_def)

lemma space_run_suffix:
  "r \<in> set (space_run s) \<Longrightarrow> \<exists>pre. s = pre @ r \<and> list_all py_isspace pre"
proof -
  assume "r \<in> set (space_run s)"
  then obtain k where k: "k \<le> length (takeWhile py_isspace s)" and r: "r = drop k s"
  proof -
    from \<open>r \<in> set (space_run s)\<close> obtain k where "k \<in> set [1..<Suc (length (takeWhile py_isspace s))]" "r = drop k s"
      unfolding space_run_def by auto
    moreover from this(1) have "k \<le> length (takeWhile py_isspace s)" by auto
    ultimately show ?thesis using that by blast
  qed
  have "take k s = take k (takeWhile py_isspace s)"
    using k by (metis takeWhile_dropWhile_id take_append diff_is_0_eq append_Nil2 take0)
  then have "list_all py_isspace (take k s)"
    by (metis list_all_iff set_takeWhileD in_set_takeD)
  then show ?thesis using r by (metis append_take_drop_id)
qed

lemma match_items_FSpace_one:
  "py_isspace x \<Longrightarrow> s = [] \<or> \<not> py_isspace (hd s) \<Longrightarrow> match_items (FSpace # its) (x # s) = match_items its s"
  by (simp add: space_run_one split: option.split)

lemma match_items_FDir_first:
  "List.map_filter (\<lambda>a. match_seq a s) (dir_alts d) = (t, r) # rest \<Longrightarrow> match_items its r = Some (g, r') \<Longrightarrow>
   match_items (FDir d # its) s = Some ((d, t) # g, r')"
  by simp

lemma digits_val_zero_pad: "digits_val (zero_pad w n) = n mod 10 ^ w"
proof (induction w arbitrary: n)
  case (Suc w)
  then show ?case by (simp add: mod_mult2_eq [of n 10 "10 ^ w"] algebra_simps)
qed simp

lemma group_int_zero_pad [simp]: "group_int (zero_pad w n) = n mod 10 ^ w"
proof -
  have "filter is_digit (zero_pad w n) = zero_pad w n"
    using zero_pad_digits [of w n] by (simp add: list_all_iff)
  then show ?thesis by (simp add: group_int_def digits_val_zero_pad)
qed

lemma digit_in_digit_char [simp]:
  "k < 10 \<Longrightarrow> digit_in lo hi (digit_char k) \<longleftrightarrow> lo \<le> k \<and> k \<le> hi"
  by (simp add: digit_in_def)

lemma not_digit_seps [simp]:
  "\<not> is_digit CHR ''/''" "\<not> is_digit CHR ''-''" "\<not> is_digit CHR '' ''" "\<not> is_digit CHR '',''"
  by (simp_all add: is_digit_def)

lemma digit_in_not_digit [simp]: "\<not> is_digit c \<Longrightarrow> \<not> digit_in lo hi c"
  by (simp add: digit_in_def)

lemma dir_alts_year_pad:
  "List.map_filter (\<lambda>a. match_seq a (zero_pad 4 y @ r)) (dir_alts DirY) = [(zero_pad 4 y, r)]"
  by (simp add: dir_alts_def zero_pad_4)

lemma dir_alts_short_year_pad:
  "List.map_filter (\<lambda>a. match_seq a (zero_pad 2 y @ r)) (dir_alts Diry) = [(zero_pad 2 y, r)]"
  by (simp add: dir_alts_def zero_pad_2)

lemma dir_alts_digit_first:
  "\<not> is_digit x \<Longrightarrow> d \<in> {DirY, Diry, Dirm} \<Longrightarrow> List.map_filter (\<lambda>a. match_seq a (x # s)) (dir_alts d) = []"
  by (auto simp: dir_alts_def)

lemma dir_alts_month_pad:
  assumes "1 \<le> m" "m \<le> 12"
  shows "\<exists>rest. List.map_filter (\<lambda>a. match_seq a (zero_pad 2 m @ r)) (dir_alts Dirm) = (zero_pad 2 m, r) # rest"
proof (cases "10 \<le> m")
  case True
  then have "m div 10 = 1" "m mod 10 \<le> 2" using assms by presburger+
  then show ?thesis by (simp add: dir_alts_def zero_pad_2)
next
  case False
  then have "m div 10 = 0" "m mod 10 = m" using assms by auto
  then show ?thesis using False assms by (simp add: dir_alts_def zero_pad_2)
qed

lemma dir_alts_day_pad:
  assumes "1 \<le> d" "d \<le> 31"
  shows "\<exists>rest. List.map_filter (\<lambda>a. match_seq a (zero_pad 2 d @ r)) (dir_alts Dird) = (zero_pad 2 d, r) # rest"
proof -
  consider "30 \<le> d" | "10 \<le> d" "d < 30" | "d < 10" by linarith
  then show ?thesis
  proof cases
    case 1
    then have "d div 10 = 3" "d mod 10 \<le> 1" using assms by presburger+
    then show ?thesis by (simp add: dir_alts_def zero_pad_2)
  next
    case 2
    then have "d div 10 \<in> {1, 2}" by auto
    then show ?thesis using 2 by (auto simp: dir_alts_def zero_pad_2)
  next
    case 3
    then have "d div 10 = 0" "d mod 10 = d" by auto
    then show ?thesis using 3 assms by (simp add: dir_alts_def zero_pad_2)
  qed
qed

lemma fmt_items_iso:
  "fmt_items ''%Y-%m-%d'' = Some [FDir DirY, FLit CHR ''-'', FDir Dirm, FLit CHR ''-'', FDir Dird]"
  by (simp add: pct_item_def py_isspace_def)

lemma strptime_date_valid: "strptime_date f s = Some d \<Longrightarrow> valid_date d"
  by (auto simp: strptime_date_def strptime_items_def valid_date_def Let_def
      split: option.splits prod.splits if_splits)

text \<open>Parsing the ISO form of a valid date with \<open>'%Y-%m-%d'\<close> gives the date back.\<close>

lemma strptime_date_isoformat:
  assumes "valid_date d"
  shows "strptime_date ''%Y-%m-%d'' (date_isoformat d) = Some d"
proof -
  obtain y m dd where d: "d = Date y m dd" by (cases d)
  with assms have v: "valid_ymd y m dd" by (simp add: valid_date_def)
  then have b: "y < 10000" "1 \<le> m" "m \<le> 12" "1 \<le> dd" "dd \<le> 31"
    using days_in_month_le_31 [of m y] by (auto simp: valid_ymd_def)
  obtain rd where rd: "List.map_filter (\<lambda>a. match_seq a (zero_pad 2 dd @ [])) (dir_alts Dird) = (zero_pad 2 dd, []) # rd"
    using dir_alts_day_pad b(4,5) by blast
  obtain rm where rm: "List.map_filter (\<lambda>a. match_seq a (zero_pad 2 m @ CHR ''-'' # zero_pad 2 dd)) (dir_alts Dirm) =
                         (zero_pad 2 m, CHR ''-'' # zero_pad 2 dd) # rm"
    using dir_alts_month_pad b(2,3) by blast
  have "match_items [FDir DirY, FLit CHR ''-'', FDir Dirm, FLit CHR ''-'', FDir Dird] (date_isoformat d) =
          Some ([(DirY, zero_pad 4 y), (Dirm, zero_pad 2 m), (Dird, zero_pad 2 dd)], [])"
    using rd rm by (simp add: date_isoformat_def d dir_alts_year_pad lit_class_low)
  then show ?thesis using v b
    by (simp add: strptime_date_def fmt_items_iso strptime_items_def d del: match_items.simps fmt_items.simps)
qed

lemma list_all2_classes:
  "list_all2 (\<lambda>p c. p c) ps t \<Longrightarrow> x \<in> set t \<Longrightarrow> \<exists>p \<in> set ps. p x"
  by (induction ps t rule: list_all2_induct) auto

lemma alt_result:
  "(t, r) \<in> set (List.map_filter (\<lambda>a. match_seq a s) (dir_alts d)) \<Longrightarrow>
     r = drop (length t) s \<and> (\<exists>a \<in> set (dir_alts d). length a = length t)"
  by (auto simp: in_set_map_filter dest!: match_seq_SomeD list_all2_lengthD)

lemma match_items_FDir_None:
  "(\<And>t r. (t, r) \<in> set (List.map_filter (\<lambda>a. match_seq a s) (dir_alts d)) \<Longrightarrow> match_items its r = None) \<Longrightarrow>
     match_items (FDir d # its) s = None"
  by (auto simp: first_some_None_iff split: prod.splits)

lemma dir_alts_day_month_length:
  "d \<in> {Dirm, Dird} \<Longrightarrow> a \<in> set (dir_alts d) \<Longrightarrow> length a = 1 \<or> length a = 2"
  by (auto simp: dir_alts_def)

lemma alt_result_day_month:
  assumes "(t, r) \<in> set (List.map_filter (\<lambda>a. match_seq a s) (dir_alts d))" "d \<in> {Dirm, Dird}"
  shows "r = drop 1 s \<or> r = drop 2 s"
  using alt_result [OF assms(1)] dir_alts_day_month_length [OF assms(2)] by fastforce

text \<open>A match consumes a prefix of the input made of characters its items accept.\<close>

lemma match_items_consumed:
  "match_items its s = Some (g, r) \<Longrightarrow>
     \<exists>pre. s = pre @ r \<and> (\<forall>x \<in> set pre. \<exists>it \<in> set its. item_accepts it x)"
proof (induction its arbitrary: s g)
  case Nil
  then show ?case by simp
next
  case (Cons it its)
  show ?case
  proof (cases it)
    case (FLit c)
    with Cons.prems obtain x s' where s: "s = x # s'" "lit_class c x" "match_items its s' = Some (g, r)"
      by (cases s) (auto split: if_splits)
    with Cons.IH obtain pre where "s' = pre @ r" "\<forall>x \<in> set pre. \<exists>it \<in> set its. item_accepts it x" by blast
    with s FLit show ?thesis by (intro exI [of _ "x # pre"]) (auto simp: item_accepts_def)
  next
    case FSpace
    with Cons.prems obtain r1 where r1: "r1 \<in> set (space_run s)" "match_items its r1 = Some (g, r)"
      by (auto dest: first_some_SomeD)
    from space_run_suffix [OF r1(1)] obtain pre1 where "s = pre1 @ r1" "list_all py_isspace pre1" by blast
    moreover from Cons.IH [OF r1(2)] obtain pre2 where
      "r1 = pre2 @ r" "\<forall>x \<in> set pre2. \<exists>it \<in> set its. item_accepts it x" by blast
    ultimately show ?thesis using FSpace
      by (intro exI [of _ "pre1 @ pre2"]) (auto simp: item_accepts_def list_all_iff)
  next
    case (FDir d)
    with Cons.prems obtain t r1 g' where
      tr: "(t, r1) \<in> set (List.map_filter (\<lambda>a. match_seq a s) (dir_alts d))" "match_items its r1 = Some (g', r)"
      by (auto dest!: first_some_SomeD split: prod.splits)
    then obtain a where a: "a \<in> set (dir_alts d)" "match_seq a s = Some (t, r1)"
      by (auto simp: in_set_map_filter)
    from match_seq_SomeD [OF a(2)] have s: "s = t @ r1" "list_all2 (\<lambda>p c. p c) a t" by auto
    from Cons.IH [OF tr(2)] obtain pre2 where
      "r1 = pre2 @ r" "\<forall>x \<in> set pre2. \<exists>it \<in> set its. item_accepts it x" by blast
    moreover have "\<forall>x \<in> set t. item_accepts (FDir d) x"
      using a(1) list_all2_classes [OF s(2)] by (fastforce simp: item_accepts_def list_ex_iff)
    ultimately show ?thesis using s FDir by (intro exI [of _ "t @ pre2"]) auto
  qed
qed

lemma strptime_date_consumed:
  "strptime_date f s = Some d \<Longrightarrow> fmt_items f = Some its \<Longrightarrow> \<forall>x \<in> set s. \<exists>it \<in> set its. item_accepts it x"
  by (auto simp: strptime_date_def strptime_items_def split: option.splits if_splits
      dest!: match_items_consumed)

text \<open>
  The ISO pattern on a zero-padded year, month and day: the month and day groups
  match exactly the two digits of a month 1 to 12 and a day 1 to 31; otherwise the
  match fails, or a one-digit branch leaves a digit over, which is
  \<open>unconverted data\<close>.
\<close>

lemma lit_dash_digit [simp]: "k < 10 \<Longrightarrow> \<not> lit_class CHR ''-'' (digit_char k)"
  by (simp add: lit_class_low) (metis is_digit_digit_char not_digit_seps(2))

lemma lit_class_refl [simp]: "lit_class c c"
  by (simp add: lit_class_def)

lemma digit_char_ne_space [simp]: "k < 10 \<Longrightarrow> digit_char k \<noteq> CHR '' ''"
  by (metis is_digit_digit_char not_digit_seps(3))

lemma match_month_digits:
  assumes "a < 10" "b < 10"
  shows "match_items (FDir Dirm # FLit CHR ''-'' # its) (digit_char a # digit_char b # CHR ''-'' # r) =
           (if (a = 0 \<and> 1 \<le> b) \<or> (a = 1 \<and> b \<le> 2)
            then map_option (\<lambda>(g, r'). ((Dirm, [digit_char a, digit_char b]) # g, r')) (match_items its r)
            else None)"
  using assms by (simp add: dir_alts_def split: option.split)

lemma match_day_digits:
  assumes "a < 10" "b < 10"
  shows "match_items [FDir Dird] [digit_char a, digit_char b] =
           (if (a = 3 \<and> b \<le> 1) \<or> (1 \<le> a \<and> a \<le> 2) \<or> (a = 0 \<and> 1 \<le> b)
            then Some ([(Dird, [digit_char a, digit_char b])], [])
            else if 1 \<le> a then Some ([(Dird, [digit_char a])], [digit_char b]) else None)"
  using assms by (simp add: dir_alts_def)

lemma two_digits: "(n::nat) < 100 \<Longrightarrow> n div 10 mod 10 = n div 10 \<and> n div 10 < 10 \<and> n mod 10 < 10 \<and> n = 10 * (n div 10) + n mod 10"
  by simp

lemma group_int_two [simp]: "a < 10 \<Longrightarrow> b < 10 \<Longrightarrow> group_int [digit_char a, digit_char b] = 10 * a + b"
  by (simp add: group_int_def digits_val_two)

lemma month_digits_range:
  "(m::nat) < 100 \<Longrightarrow> ((m div 10 = 0 \<and> 1 \<le> m mod 10) \<or> (m div 10 = 1 \<and> m mod 10 \<le> 2)) \<longleftrightarrow> 1 \<le> m \<and> m \<le> 12"
  by presburger

lemma day_digits_range:
  "(d::nat) < 100 \<Longrightarrow>
     ((d div 10 = 3 \<and> d mod 10 \<le> 1) \<or> (1 \<le> d div 10 \<and> d div 10 \<le> 2) \<or> (d div 10 = 0 \<and> 1 \<le> d mod 10)) \<longleftrightarrow>
     1 \<le> d \<and> d \<le> 31"
  by presburger

lemma match_year_dash:
  "match_items (FDir DirY # FLit CHR ''-'' # its) (zero_pad 4 y @ CHR ''-'' # r) =
     map_option (\<lambda>(g, r'). ((DirY, zero_pad 4 y) # g, r')) (match_items its r)"
  by (simp add: dir_alts_year_pad split: option.split)

lemma strptime_iso_digits:
  assumes "y < 10000" "m < 100" "d < 100"
  shows "strptime_date ''%Y-%m-%d'' (date_isoformat (Date y m d)) = (if valid_ymd y m d then Some (Date y m d) else None)"
proof -
  have mm: "m div 10 mod 10 = m div 10" "m div 10 < 10" "m mod 10 < 10" "10 * (m div 10) + m mod 10 = m"
    using two_digits [OF assms(2)] by auto
  have dd: "d div 10 mod 10 = d div 10" "d div 10 < 10" "d mod 10 < 10" "10 * (d div 10) + d mod 10 = d"
    using two_digits [OF assms(3)] by auto
  have v31: "valid_ymd y m d \<Longrightarrow> d \<le> 31" using days_in_month_le_31 [of m y] by (auto simp: valid_ymd_def)
  have iso: "date_isoformat (Date y m d) = zero_pad 4 y @ CHR ''-'' # digit_char (m div 10) # digit_char (m mod 10) # CHR ''-'' # [digit_char (d div 10), digit_char (d mod 10)]"
    by (simp add: date_isoformat_def zero_pad_2 mm(1) dd(1))
  have M: "match_items [FDir DirY, FLit CHR ''-'', FDir Dirm, FLit CHR ''-'', FDir Dird] (date_isoformat (Date y m d)) =
      (if 1 \<le> m \<and> m \<le> 12 then
         (if 1 \<le> d \<and> d \<le> 31
          then Some ([(DirY, zero_pad 4 y), (Dirm, [digit_char (m div 10), digit_char (m mod 10)]),
                      (Dird, [digit_char (d div 10), digit_char (d mod 10)])], [])
          else if 1 \<le> d div 10 then Some ([(DirY, zero_pad 4 y), (Dirm, [digit_char (m div 10), digit_char (m mod 10)]),
                      (Dird, [digit_char (d div 10)])], [digit_char (d mod 10)])
          else None)
       else None)"
    using month_digits_range [OF assms(2)] day_digits_range [OF assms(3)]
    by (simp only: iso match_year_dash match_month_digits [OF mm(2,3)] match_day_digits [OF dd(2,3)]) simp
  have y: "y mod 10000 = y" using assms(1) by simp
  show ?thesis
    using M v31 mm dd y
    by (auto simp: strptime_date_def fmt_items_iso strptime_items_def valid_ymd_def
        simp del: match_items.simps fmt_items.simps)
qed

text \<open>Month names.\<close>

lemma month_abbrs_lower: "\<forall>n \<in> set month_abbrs. length n = 3 \<and> (\<forall>c \<in> set n. 97 \<le> (of_char c :: nat) \<and> of_char c \<le> (122 :: nat))"
  by (simp add: month_abbrs_def)

lemma py_lower_lower: "97 \<le> (of_char c :: nat) \<Longrightarrow> of_char c \<le> (122 :: nat) \<Longrightarrow> py_lower c = c"
  by (simp add: py_lower_def Let_def)

lemma py_lower_eq_letter:
  assumes "py_lower x = c" "97 \<le> (of_char c :: nat)" "of_char c \<le> (122 :: nat)"
  shows "\<not> is_digit x \<and> \<not> py_isspace x"
  using assms by (auto simp: py_lower_def Let_def is_digit_def py_isspace_def split: if_splits)

lemma month_abbr_mem: "i < 12 \<Longrightarrow> month_abbrs ! i \<in> set month_abbrs"
proof -
  assume "i < 12"
  moreover have "length month_abbrs = 12" by (simp add: month_abbrs_def)
  ultimately show ?thesis by (simp del: length_map)
qed

lemma seq_to_re_month_abbrs: "seq_to_re month_abbrs = map (map lit_class) month_abbrs"
  by (simp add: seq_to_re_def month_abbrs_def)

lemma match_seq_lits:
  "length t = length n \<Longrightarrow>
     match_seq (map lit_class n) (t @ r) = (if map py_lower t = map py_lower n then Some (t, r) else None)"
  by (induction t n rule: list_induct2) (auto simp: lit_class_def)

lemma map_filter_if_eq:
  "distinct xs \<Longrightarrow> x \<in> set xs \<Longrightarrow> List.map_filter (\<lambda>n. if n = x then Some y else None) xs = [y]"
proof (induction xs)
  case (Cons a xs)
  show ?case
  proof (cases "a = x")
    case True
    with Cons.prems have "x \<notin> set xs" by auto
    then have "List.map_filter (\<lambda>n. if n = x then Some y else None) xs = []"
      by (induction xs) auto
    with True show ?thesis by simp
  next
    case False
    with Cons show ?thesis by simp
  qed
qed simp

lemma takeWhile_neq_nth:
  "distinct xs \<Longrightarrow> i < length xs \<Longrightarrow> length (takeWhile (\<lambda>n. n \<noteq> xs ! i) xs) = i"
proof (induction xs arbitrary: i)
  case (Cons a xs)
  then show ?case by (cases i) auto
qed simp

lemma month_abbr_alts:
  assumes "i < 12" "map py_lower t = month_abbrs ! i"
  shows "List.map_filter (\<lambda>a. match_seq a (t @ r)) (dir_alts Dirb) = [(t, r)]
         \<and> month_index month_abbrs t = Suc i"
proof -
  have n: "month_abbrs ! i \<in> set month_abbrs" using assms(1) by (rule month_abbr_mem)
  have "length t = length (map py_lower t)" by simp
  then have lt: "length t = 3" using month_abbrs_lower n assms(2) by simp
  have l: "\<forall>n \<in> set month_abbrs. length n = length t \<and> map py_lower n = n"
    using month_abbrs_lower lt by (auto intro: map_idI py_lower_lower)
  have "List.map_filter (\<lambda>a. match_seq a (t @ r)) (dir_alts Dirb) =
          List.map_filter (\<lambda>n. if n = map py_lower t then Some (t, r) else None) month_abbrs"
    unfolding dir_alts_def directive.case seq_to_re_month_abbrs map_filter_map
    using l by (auto simp: match_seq_lits intro!: map_filter_cong)
  moreover have "distinct month_abbrs" by (simp add: month_abbrs_def)
  moreover have "length (takeWhile (\<lambda>n. n \<noteq> month_abbrs ! i) month_abbrs) = i"
    using assms(1) takeWhile_neq_nth [of month_abbrs i] by (simp add: month_abbrs_def)
  moreover have "month_abbrs ! i \<noteq> []" using month_abbrs_lower n by auto
  ultimately show ?thesis using n assms(2) by (simp add: map_filter_if_eq month_index_def)
qed

end
