(* ===== verification/FormFields.thy ===== *)
theory FormFields
  imports Models Strptime
begin

text \<open>
  The Django form fields that \<open>TaskForm\<close> (a \<open>ModelForm\<close>) generates from the model
  fields it lists, and what each does in \<open>Field.clean(value)\<close>: \<open>to_python\<close>, then
  \<open>validate\<close>, then \<open>run_validators\<close>.  A raised \<open>ValidationError\<close> is the list of its
  error codes (\<open>Inl\<close>), a cleaned value is \<open>Inr\<close>.  The raw value is what the
  widget reads from the payload, \<open>None\<close> when the key is absent.
  \<^item> \<open>title\<close>, a \<open>CharField(max_length=100)\<close> (\<open>strip=True\<close>, \<open>required\<close>): the
    value is stripped, an empty result is \<open>required\<close>, otherwise every validator
    runs and all their errors are kept: \<open>MaxLengthValidator\<close>, then
    \<open>ProhibitNullCharactersValidator\<close>.
  \<^item> \<open>due_date\<close>, a \<open>DateField\<close>: an absent or empty value is \<open>required\<close>; any other
    value is stripped and tried against each input format in turn, none matching
    being \<open>invalid\<close>.  A value of blanks only is therefore \<open>invalid\<close>, not
    \<open>required\<close>.
  \<^item> \<open>category\<close>, a \<open>ModelChoiceField(Category.objects.all())\<close>: an absent or empty
    value is \<open>required\<close>; otherwise \<open>queryset.get(pk=value)\<close>, where the key is
    converted with \<open>int()\<close>, and a \<open>ValueError\<close> or \<open>DoesNotExist\<close> is
    \<open>invalid_choice\<close>.  A negative key matches no row.
\<close>

section \<open>Field kinds, values and errors\<close>

datatype field_error = Required | MaxLength nat nat | NullCharacters | InvalidDate | InvalidChoice | Blank | InvalidRelated

datatype field_kind = CharField nat | DateField | ModelChoiceField

datatype field_value = VStr string | VDate date | VRef nat

section \<open>The cleaners\<close>

definition char_field_clean :: "nat \<Rightarrow> string option \<Rightarrow> field_error list + field_value" where
  "char_field_clean maxlen v =
     (let x = (case v of None \<Rightarrow> [] | Some r \<Rightarrow> py_strip r)
      in if x = [] then Inl [Required]
         else (let errs = (if maxlen < length x then [MaxLength maxlen (length x)] else [])
                          @ (if CHR 0x00 \<in> set x then [NullCharacters] else [])
               in if errs = [] then Inr (VStr x) else Inl errs))"

text \<open>
  The input formats tried by \<open>DateField\<close>: \<open>get_format('DATE_INPUT_FORMATS')\<close> of the
  default language \<open>en-us\<close>, the list of \<open>django/conf/locale/en/formats.py\<close> (which
  already holds the ISO format that \<open>get_format\<close> would append).
\<close>

definition date_input_formats :: "string list" where
  "date_input_formats =
     [''%Y-%m-%d'', ''%m/%d/%Y'', ''%m/%d/%y'', ''%b %d %Y'', ''%b %d, %Y'', ''%d %b %Y'',
      ''%d %b, %Y'', ''%B %d %Y'', ''%B %d, %Y'', ''%d %B %Y'', ''%d %B, %Y'']"

definition date_field_clean :: "string option \<Rightarrow> field_error list + field_value" where
  "date_field_clean v =
     (case v of
        None \<Rightarrow> Inl [Required]
      | Some r \<Rightarrow>
          if r = [] then Inl [Required]
          else (case first_some (\<lambda>f. strptime_date f (py_strip r)) date_input_formats of
                  None \<Rightarrow> Inl [InvalidDate]
                | Some d \<Rightarrow> Inr (VDate d)))"

definition model_choice_clean :: "store \<Rightarrow> string option \<Rightarrow> field_error list + field_value" where
  "model_choice_clean s v =
     (case v of
        None \<Rightarrow> Inl [Required]
      | Some r \<Rightarrow>
          if r = [] then Inl [Required]
          else (case python_int r of
                  None \<Rightarrow> Inl [InvalidChoice]
                | Some k \<Rightarrow>
                    if k < 0 then Inl [InvalidChoice]
                    else (case get_category s (nat k) of
                            None \<Rightarrow> Inl [InvalidChoice]
                          | Some c \<Rightarrow> Inr (VRef (category_id c)))))"

definition clean_field :: "store \<Rightarrow> field_kind \<Rightarrow> string option \<Rightarrow> field_error list + field_value" where
  "clean_field s k v =
     (case k of
        CharField n \<Rightarrow> char_field_clean n v
      | DateField \<Rightarrow> date_field_clean v
      | ModelChoiceField \<Rightarrow> model_choice_clean s v)"

definition raw_text :: "string option \<Rightarrow> string" where
  "raw_text v = (case v of None \<Rightarrow> [] | Some r \<Rightarrow> r)"

text \<open>
  The type of a cleaned value, as the code that reads \<open>cleaned_data\<close> relies on it:
  a \<open>CharField\<close> gives a stripped, non-empty \<open>str\<close> within its length and without
  NUL, a \<open>DateField\<close> a \<open>datetime.date\<close> that exists, a \<open>ModelChoiceField\<close> a
  \<open>Category\<close> of the datastore (by its key).
\<close>

fun value_of_kind :: "store \<Rightarrow> field_kind \<Rightarrow> field_value \<Rightarrow> bool" where
  "value_of_kind s (CharField n) (VStr t) \<longleftrightarrow>
     t \<noteq> [] \<and> length t \<le> n \<and> CHR 0x00 \<notin> set t \<and> py_strip t = t"
| "value_of_kind s DateField (VDate d) \<longleftrightarrow> valid_date d"
| "value_of_kind s ModelChoiceField (VRef k) \<longleftrightarrow> k \<in> set (category_ids s)"
| "value_of_kind s _ _ \<longleftrightarrow> False"

section \<open>Lemmas on the cleaners\<close>

declare clean_field_def [clean_simps]

lemma char_field_clean_ok_iff:
  "char_field_clean n v = Inr x \<longleftrightarrow>
     x = VStr (py_strip (raw_text v)) \<and> py_strip (raw_text v) \<noteq> [] \<and>
     length (py_strip (raw_text v)) \<le> n \<and> CHR 0x00 \<notin> set (py_strip (raw_text v))"
  by (cases v) (auto simp: char_field_clean_def raw_text_def Let_def)

lemma char_field_clean_VStr:
  "char_field_clean n v = Inr x \<Longrightarrow> \<exists>t. x = VStr t"
  by (simp add: char_field_clean_ok_iff)

lemma char_field_clean_title_ok:
  "char_field_clean title_max_length v = Inr (VStr t) \<longleftrightarrow> t = py_strip (raw_text v) \<and> title_ok t"
  by (auto simp: char_field_clean_ok_iff title_ok_def)

lemma date_field_clean_ok_iff:
  "date_field_clean v = Inr x \<longleftrightarrow>
     (\<exists>r d. v = Some r \<and> r \<noteq> [] \<and>
        first_some (\<lambda>f. strptime_date f (py_strip r)) date_input_formats = Some d \<and> x = VDate d)"
  by (cases v) (auto simp: date_field_clean_def split: option.splits)

lemma date_field_clean_valid:
  "date_field_clean v = Inr (VDate d) \<Longrightarrow> valid_date d"
  by (auto simp: date_field_clean_ok_iff dest!: first_some_SomeD intro: strptime_date_valid)

lemma model_choice_clean_ok:
  "model_choice_clean s v = Inr x \<Longrightarrow> \<exists>k. x = VRef k \<and> k \<in> set (category_ids s)"
  by (auto simp: model_choice_clean_def category_ids_def split: option.splits if_splits
      dest!: get_category_Some)

lemma clean_field_value_of_kind: "clean_field s k v = Inr x \<Longrightarrow> value_of_kind s k x"
proof (cases k)
  case (CharField n)
  then show "clean_field s k v = Inr x \<Longrightarrow> value_of_kind s k x"
    by (auto simp: clean_field_def char_field_clean_ok_iff)
next
  case DateField
  show "clean_field s k v = Inr x \<Longrightarrow> value_of_kind s k x"
  proof -
    assume "clean_field s k v = Inr x"
    then have h: "date_field_clean v = Inr x" by (simp add: clean_field_def DateField)
    then obtain dd where "x = VDate dd" by (auto simp: date_field_clean_ok_iff)
    with h show ?thesis by (simp add: DateField date_field_clean_valid)
  qed
next
  case ModelChoiceField
  then show "clean_field s k v = Inr x \<Longrightarrow> value_of_kind s k x"
    by (auto simp: clean_field_def dest: model_choice_clean_ok)
qed

lemma model_choice_clean_id:
  assumes "k \<in> set (category_ids s)"
  shows "model_choice_clean s (Some (show_nat k)) = Inr (VRef k)"
proof -
  obtain c where "get_category s k = Some c"
    using assms get_category_None_iff by (cases "get_category s k") auto
  then have "get_category s k = Some c" "category_id c = k"
    using get_category_Some by auto
  then show ?thesis by (simp add: model_choice_clean_def python_int_show_nat)
qed

lemma date_field_clean_iso_first:
  "r \<noteq> [] \<Longrightarrow> strptime_date ''%Y-%m-%d'' (py_strip r) = Some d \<Longrightarrow> date_field_clean (Some r) = Inr (VDate d)"
  by (simp add: date_field_clean_def date_input_formats_def)

lemma formats_reject_dash:
  "list_all (\<lambda>f. case fmt_items f of None \<Rightarrow> False | Some its \<Rightarrow> list_all (\<lambda>it. \<not> item_accepts it CHR ''-'') its)
     (tl date_input_formats)"
  by code_simp

text \<open>Only the ISO format can read a value with a dash.\<close>

lemma first_some_formats_dash:
  assumes "CHR ''-'' \<in> set s"
  shows "first_some (\<lambda>f. strptime_date f s) date_input_formats = strptime_date ''%Y-%m-%d'' s"
proof -
  have "strptime_date f s = None" if f: "f \<in> set (tl date_input_formats)" for f
  proof -
    from formats_reject_dash f obtain its where
      its: "fmt_items f = Some its" "\<forall>it \<in> set its. \<not> item_accepts it CHR ''-''"
      by (auto simp: list_all_iff split: option.splits)
    show ?thesis
    proof (cases "strptime_date f s")
      case (Some d)
      from strptime_date_consumed [OF Some its(1)] assms its(2) show ?thesis by blast
    qed
  qed
  then have rest: "first_some (\<lambda>f. strptime_date f s) (tl date_input_formats) = None"
    by (simp add: first_some_None_iff)
  have dif: "date_input_formats = ''%Y-%m-%d'' # tl date_input_formats"
    by (simp add: date_input_formats_def)
  show ?thesis by (subst dif) (simp add: rest split: option.split)
qed
lemma fmt_items_us:
  "fmt_items ''%m/%d/%Y'' = Some [FDir Dirm, FLit CHR ''/'', FDir Dird, FLit CHR ''/'', FDir DirY]"
  "fmt_items ''%m/%d/%y'' = Some [FDir Dirm, FLit CHR ''/'', FDir Dird, FLit CHR ''/'', FDir Diry]"
  by (simp_all add: pct_item_def py_isspace_def)

lemma fmt_items_abbr: "fmt_items ''%b %d %Y'' = Some [FDir Dirb, FSpace, FDir Dird, FSpace, FDir DirY]"
  by (simp add: pct_item_def py_isspace_def)

text \<open>The three numeric formats need a digit first.\<close>

lemma numeric_formats_digit_first:
  assumes "\<not> is_digit x"
  shows "strptime_date ''%Y-%m-%d'' (x # s) = None" "strptime_date ''%m/%d/%Y'' (x # s) = None"
        "strptime_date ''%m/%d/%y'' (x # s) = None"
  using assms dir_alts_digit_first [OF assms]
  by (simp_all add: strptime_date_def strptime_items_def fmt_items_iso fmt_items_us del: fmt_items.simps)

text \<open>\<open>'%m/%d/%Y'\<close> cannot read a two-digit year.\<close>

lemma us_format_short_year_fails:
  assumes "is_digit x2" "is_digit x5"
  shows "match_items [FDir Dirm, FLit CHR ''/'', FDir Dird, FLit CHR ''/'', FDir DirY]
     [x1, x2, CHR ''/'', x4, x5, CHR ''/'', x7, x8] = None"
proof (rule match_items_FDir_None)
  have sl: "x2 \<noteq> CHR ''/''" "x5 \<noteq> CHR ''/''" using assms by auto
  fix t r
  assume "(t, r) \<in> set (List.map_filter (\<lambda>a. match_seq a [x1, x2, CHR ''/'', x4, x5, CHR ''/'', x7, x8]) (dir_alts Dirm))"
  then consider "r = [x2, CHR ''/'', x4, x5, CHR ''/'', x7, x8]" | "r = [CHR ''/'', x4, x5, CHR ''/'', x7, x8]"
    using alt_result_day_month by fastforce
  then show "match_items [FLit CHR ''/'', FDir Dird, FLit CHR ''/'', FDir DirY] r = None"
  proof cases
    case 1
    then show ?thesis using sl by (simp add: lit_class_low)
  next
    case 2
    have "match_items [FDir Dird, FLit CHR ''/'', FDir DirY] [x4, x5, CHR ''/'', x7, x8] = None"
    proof (rule match_items_FDir_None)
      fix t' r'
      assume "(t', r') \<in> set (List.map_filter (\<lambda>a. match_seq a [x4, x5, CHR ''/'', x7, x8]) (dir_alts Dird))"
      then consider "r' = [x5, CHR ''/'', x7, x8]" | "r' = [CHR ''/'', x7, x8]"
        using alt_result_day_month by fastforce
      then show "match_items [FLit CHR ''/'', FDir DirY] r' = None"
        by cases (use sl in \<open>simp_all add: lit_class_low dir_alts_def\<close>)
    qed
    with 2 show ?thesis by (simp add: lit_class_low)
  qed
qed
text \<open>A value of a valid date's fields, separated by blanks or slashes, has no blank at either end.\<close>

lemma py_strip_zero_pad_end:
  "\<not> py_isspace (hd s) \<Longrightarrow> s \<noteq> [] \<Longrightarrow> py_strip (s @ zero_pad (Suc w) n) = s @ zero_pad (Suc w) n"
proof (rule py_strip_ends)
  assume "\<not> py_isspace (hd s)" "s \<noteq> []"
  then show "s @ zero_pad (Suc w) n \<noteq> []" "\<not> py_isspace (hd (s @ zero_pad (Suc w) n))" by auto
  have "zero_pad (Suc w) n \<noteq> []" by (metis length_zero_pad Zero_not_Suc list.size(3))
  then have "last (s @ zero_pad (Suc w) n) \<in> set (zero_pad (Suc w) n)" by simp
  then show "\<not> py_isspace (last (s @ zero_pad (Suc w) n))"
    using zero_pad_no_space [of "Suc w" n] by (auto simp: list_all_iff)
qed

text \<open>
  C13. Round trip through the due-date field: submitting the ISO form
  (\<open>date.isoformat()\<close>) of a valid date cleans to that very date.
\<close>

theorem date_field_clean_isoformat:
  assumes "valid_date d"
  shows "date_field_clean (Some (date_isoformat d)) = Inr (VDate d)"
proof -
  have "py_strip (date_isoformat d) = date_isoformat d"
    by (rule py_strip_no_space [OF date_isoformat_no_space])
  then show ?thesis
    using date_field_clean_iso_first [OF date_isoformat_ne] strptime_date_isoformat [OF assms] by simp
qed

text \<open>
  C14. On the ISO form of a year, month and day (as \<open>date.isoformat()\<close> and an
  HTML date input write it), the due-date field accepts exactly the dates of the
  proleptic Gregorian calendar: year 1 to 9999, month 1 to 12, a day within the
  month's length, and February's 29th only in a year divisible by 4 that is not a
  century or is divisible by 400.  Every other such value is \<open>InvalidDate\<close>.
\<close>

theorem date_field_clean_iso_calendar:
  assumes "y < 10000" "m < 100" "d < 100"
  shows "date_field_clean (Some (date_isoformat (Date y m d))) =
           (if 1 \<le> y \<and> 1 \<le> m \<and> m \<le> 12 \<and> 1 \<le> d \<and>
               d \<le> [31, if y mod 4 = 0 \<and> (y mod 100 \<noteq> 0 \<or> y mod 400 = 0) then 29 else 28,
                     31, 30, 31, 30, 31, 31, 30, 31, 30, 31] ! (m - 1)
            then Inr (VDate (Date y m d)) else Inl [InvalidDate])"
proof -
  let ?s = "date_isoformat (Date y m d)"
  have st: "py_strip ?s = ?s" by (rule py_strip_no_space [OF date_isoformat_no_space])
  have "CHR ''-'' \<in> set ?s" by (simp add: date_isoformat_def)
  then have "first_some (\<lambda>f. strptime_date f (py_strip ?s)) date_input_formats =
               (if valid_ymd y m d then Some (Date y m d) else None)"
    using first_some_formats_dash strptime_iso_digits [OF assms] by (simp add: st)
  then show ?thesis
    using assms(1) by (simp add: date_field_clean_def date_isoformat_ne valid_ymd_gregorian)
qed

text \<open>
  C15. The category field reads its key with \<open>int()\<close>: the decimal form of an
  existing category's key, with blanks around it, selects that category.
\<close>

theorem model_choice_clean_padded:
  assumes "k \<in> set (category_ids s)"
  shows "model_choice_clean s (Some (replicate i (CHR '' '') @ show_nat k @ replicate j (CHR '' ''))) = Inr (VRef k)"
proof -
  obtain c where "get_category s k = Some c"
    using assms get_category_None_iff by (cases "get_category s k") auto
  then have "get_category s k = Some c" "category_id c = k"
    using get_category_Some by auto
  then show ?thesis by (simp add: model_choice_clean_def python_int_padded_show_nat)
qed


text \<open>
  C16. Equivalence on dashed values: whatever the other ten input formats are, a
  value with a dash in it is cleaned exactly as \<open>strptime(value.strip(), '%Y-%m-%d')\<close>
  alone would read it; no other format of the English list can consume a dash.
\<close>

theorem date_field_clean_dash:
  assumes "CHR ''-'' \<in> set r"
  shows "date_field_clean (Some r) =
           (case strptime_date ''%Y-%m-%d'' (py_strip r) of None \<Rightarrow> Inl [InvalidDate] | Some d \<Rightarrow> Inr (VDate d))"
proof -
  have "r \<noteq> []" using assms by auto
  moreover have "CHR ''-'' \<in> set (py_strip r)"
    using assms by (rule in_set_py_strip) (simp add: py_isspace_def)
  ultimately show ?thesis by (simp add: date_field_clean_def first_some_formats_dash)
qed

text \<open>
  C17. Two-digit years: \<open>mm/dd/yy\<close> is read by the third format, \<open>'%m/%d/%y'\<close>, after
  the ISO and \<open>'%m/%d/%Y'\<close> formats fail, with \<open>_strptime\<close>'s pivot: 00 to 68 are
  2000 to 2068, 69 to 99 are 1969 to 1999.
\<close>

theorem date_field_clean_two_digit_year:
  assumes "yy < 100" and v: "valid_ymd (if yy \<le> 68 then yy + 2000 else yy + 1900) m dd"
  shows "date_field_clean (Some (zero_pad 2 m @ ''/'' @ zero_pad 2 dd @ ''/'' @ zero_pad 2 yy)) =
           Inr (VDate (Date (if yy \<le> 68 then yy + 2000 else yy + 1900) m dd))"
proof -
  let ?y = "if yy \<le> 68 then yy + 2000 else yy + 1900"
  let ?s = "zero_pad 2 m @ ''/'' @ zero_pad 2 dd @ ''/'' @ zero_pad 2 yy"
  have "1 \<le> m" "m \<le> 12" "1 \<le> dd" "dd \<le> days_in_month ?y m"
    using v by (auto simp: valid_ymd_def)
  then have b: "1 \<le> m" "m \<le> 12" "1 \<le> dd" "dd \<le> 31"
    using days_in_month_le_31 [of m ?y] by linarith+
  have iso: "strptime_date ''%Y-%m-%d'' ?s = None"
    by (simp add: strptime_date_def fmt_items_iso strptime_items_def zero_pad_2 dir_alts_def del: fmt_items.simps)
  have us4: "strptime_date ''%m/%d/%Y'' ?s = None"
    using us_format_short_year_fails [of "digit_char (m mod 10)" "digit_char (dd mod 10)"]
    by (simp add: strptime_date_def fmt_items_us strptime_items_def zero_pad_2 del: fmt_items.simps match_items.simps)
  obtain rd where rd: "List.map_filter (\<lambda>a. match_seq a (zero_pad 2 dd @ CHR ''/'' # zero_pad 2 yy)) (dir_alts Dird) =
                         (zero_pad 2 dd, CHR ''/'' # zero_pad 2 yy) # rd"
    using dir_alts_day_pad b(3,4) by blast
  obtain rm where rm: "List.map_filter (\<lambda>a. match_seq a (zero_pad 2 m @ CHR ''/'' # zero_pad 2 dd @ CHR ''/'' # zero_pad 2 yy))
                         (dir_alts Dirm) = (zero_pad 2 m, CHR ''/'' # zero_pad 2 dd @ CHR ''/'' # zero_pad 2 yy) # rm"
    using dir_alts_month_pad b(1,2) by blast
  have "match_items [FDir Dirm, FLit CHR ''/'', FDir Dird, FLit CHR ''/'', FDir Diry] ?s =
          Some ([(Dirm, zero_pad 2 m), (Dird, zero_pad 2 dd), (Diry, zero_pad 2 yy)], [])"
    using rd rm dir_alts_short_year_pad [of yy "[]"] by (simp add: lit_class_low)
  then have us2: "strptime_date ''%m/%d/%y'' ?s = Some (Date ?y m dd)"
    using v b assms(1)
    by (cases "yy \<le> 68") (simp_all add: strptime_date_def fmt_items_us strptime_items_def Let_def del: match_items.simps fmt_items.simps)
  have "py_strip ?s = ?s"
    by (rule py_strip_ends) (simp_all add: zero_pad_2 not_isspace_digit)
  then show ?thesis using iso us4 us2 by (simp add: date_field_clean_def date_input_formats_def)
qed

text \<open>
  C18. Month names are read whatever their letter case (the pattern is compiled
  with \<open>IGNORECASE\<close>): a valid date written as its month's abbreviation in any
  case, a blank, the two-digit day, a blank and the four-digit year is read back
  by \<open>'%b %d %Y'\<close>, the first format that does not begin with a number.
\<close>

theorem date_field_clean_month_abbr:
  assumes "valid_date d" and t: "map py_lower t = month_abbrs ! (month d - 1)"
  shows "date_field_clean (Some (t @ CHR '' '' # zero_pad 2 (day d) @ CHR '' '' # zero_pad 4 (year d))) = Inr (VDate d)"
proof -
  obtain y m dd where d: "d = Date y m dd" by (cases d)
  have v: "valid_ymd y m dd" using assms(1) by (simp add: valid_date_def d)
  then have "1 \<le> m" "m \<le> 12" "1 \<le> dd" "dd \<le> days_in_month y m" "y < 10000"
    by (auto simp: valid_ymd_def)
  then have b: "1 \<le> m" "m \<le> 12" "1 \<le> dd" "dd \<le> 31" "y < 10000"
    using days_in_month_le_31 [of m y] by linarith+
  have i: "m - 1 < 12" using b by simp
  have tm: "map py_lower t = month_abbrs ! (m - 1)" using t by (simp add: d)
  have idx: "month_index month_abbrs t = m" using month_abbr_alts [OF i tm] b by simp
  have n: "month_abbrs ! (m - 1) \<in> set month_abbrs" using i by (rule month_abbr_mem)
  then obtain x t' where xt: "t = x # t'" using month_abbrs_lower tm by (cases t) auto
  have "97 \<le> (of_char (py_lower x) :: nat) \<and> (of_char (py_lower x) :: nat) \<le> 122"
    using month_abbrs_lower n tm xt by (metis list.set_intros(1) list.simps(9))
  then have x: "\<not> is_digit x" "\<not> py_isspace x" using py_lower_eq_letter [of x] by auto
  let ?r = "CHR '' '' # zero_pad 2 dd @ CHR '' '' # zero_pad 4 y"
  obtain rd where rd: "List.map_filter (\<lambda>a. match_seq a (zero_pad 2 dd @ CHR '' '' # zero_pad 4 y)) (dir_alts Dird) =
                         (zero_pad 2 dd, CHR '' '' # zero_pad 4 y) # rd"
    using dir_alts_day_pad b(3,4) by blast
  have "match_items [FDir Dirb, FSpace, FDir Dird, FSpace, FDir DirY] (t @ ?r) =
          Some ([(Dirb, t), (Dird, zero_pad 2 dd), (DirY, zero_pad 4 y)], [])"
    using month_abbr_alts [OF i tm] rd dir_alts_year_pad [of y "[]"]
    by (simp add: match_items_FSpace_one zero_pad_2 zero_pad_4 not_isspace_digit del: match_items.simps)
       (simp add: zero_pad_2 zero_pad_4 not_isspace_digit space_run_one)
  then have f4: "strptime_date ''%b %d %Y'' (t @ ?r) = Some d"
    using v b idx by (simp add: strptime_date_def fmt_items_abbr strptime_items_def d del: match_items.simps fmt_items.simps)
  have "py_strip (t @ ?r) = t @ ?r"
    using py_strip_zero_pad_end [of "t @ CHR '' '' # zero_pad 2 dd @ [CHR '' '']" 3 y] x(2) xt
    by simp
  then show ?thesis
    using f4 numeric_formats_digit_first [OF x(1)] xt
    by (simp add: date_field_clean_def date_input_formats_def d del: strptime_date_def)
qed

section \<open>Witnesses\<close>

theorem date_field_clean_isoformat_witness:
  "valid_date (Date 2024 12 31) \<and> date_field_clean (Some (date_isoformat (Date 2024 12 31))) = Inr (VDate (Date 2024 12 31))"
proof -
  have h: "valid_date (Date 2024 12 31)" by code_simp
  show ?thesis by (intro conjI h date_field_clean_isoformat [OF h])
qed

theorem date_field_clean_iso_calendar_witness:
  "date_field_clean (Some (date_isoformat (Date 1900 2 29))) = Inl [InvalidDate] \<and>
   date_field_clean (Some (date_isoformat (Date 2000 2 29))) = Inr (VDate (Date 2000 2 29)) \<and>
   date_field_clean (Some (date_isoformat (Date 2024 4 31))) = Inl [InvalidDate]"
proof -
  have a: "date_field_clean (Some (date_isoformat (Date 1900 2 29))) = Inl [InvalidDate]"
    using date_field_clean_iso_calendar [of 1900 2 29] by simp
  have b: "date_field_clean (Some (date_isoformat (Date 2000 2 29))) = Inr (VDate (Date 2000 2 29))"
    using date_field_clean_iso_calendar [of 2000 2 29] by simp
  have c: "date_field_clean (Some (date_isoformat (Date 2024 4 31))) = Inl [InvalidDate]"
    using date_field_clean_iso_calendar [of 2024 4 31] by simp
  from a b c show ?thesis by blast
qed

theorem model_choice_clean_padded_witness:
  "1 \<in> set (category_ids (fst (category_create empty_store ''Test Category''))) \<and>
   model_choice_clean (fst (category_create empty_store ''Test Category''))
     (Some (replicate 2 (CHR '' '') @ show_nat 1 @ replicate 1 (CHR '' ''))) = Inr (VRef 1)"
proof -
  have h: "1 \<in> set (category_ids (fst (category_create empty_store ''Test Category'')))" by code_simp
  show ?thesis by (intro conjI h model_choice_clean_padded [OF h])
qed

theorem date_field_clean_dash_witness:
  "CHR ''-'' \<in> set ''12-31-2024'' \<and>
   date_field_clean (Some ''12-31-2024'') =
     (case strptime_date ''%Y-%m-%d'' (py_strip ''12-31-2024'') of
        None \<Rightarrow> Inl [InvalidDate] | Some d \<Rightarrow> Inr (VDate d))"
proof -
  have h: "CHR ''-'' \<in> set ''12-31-2024''" by simp
  show ?thesis using date_field_clean_dash [OF h] h by blast
qed

theorem date_field_clean_two_digit_year_witness:
  "(69::nat) < 100 \<and> valid_ymd (if (69::nat) \<le> 68 then 69 + 2000 else 69 + 1900) 10 25 \<and>
   date_field_clean (Some (zero_pad 2 10 @ ''/'' @ zero_pad 2 25 @ ''/'' @ zero_pad 2 69)) =
     Inr (VDate (Date (if (69::nat) \<le> 68 then 69 + 2000 else 69 + 1900) 10 25))"
proof -
  have h1: "(69::nat) < 100" by simp
  have h2: "valid_ymd (if (69::nat) \<le> 68 then 69 + 2000 else 69 + 1900) 10 25" by code_simp
  show ?thesis using date_field_clean_two_digit_year [OF h1 h2] h1 h2 by blast
qed

theorem date_field_clean_month_abbr_witness:
  "valid_date (Date 2006 10 25) \<and> map py_lower ''OcT'' = month_abbrs ! (month (Date 2006 10 25) - 1) \<and>
   date_field_clean (Some (''OcT'' @ CHR '' '' # zero_pad 2 (day (Date 2006 10 25)) @ CHR '' '' #
     zero_pad 4 (year (Date 2006 10 25)))) = Inr (VDate (Date 2006 10 25))"
proof -
  have h1: "valid_date (Date 2006 10 25)" by code_simp
  have h2: "map py_lower ''OcT'' = month_abbrs ! (month (Date 2006 10 25) - 1)" by code_simp
  show ?thesis using date_field_clean_month_abbr [OF h1 h2] h1 h2 by blast
qed

end
