(* ===== verification/Forms.thy ===== *)
theory Forms
  imports FormFields
begin

text \<open>
  \<open>TaskForm\<close> (\<open>src/tasks/forms.py\<close>): a \<open>ModelForm\<close> over \<open>Task\<close> with
  \<open>fields = ['title', 'due_date', 'category']\<close>.  Binding it to a payload and asking
  \<open>is_valid()\<close> runs \<open>full_clean\<close>: \<open>_clean_fields\<close> cleans every listed field in
  order, each on its own raw value, recording either an error list under the
  field's name or the cleaned value, without stopping at the first error; then
  \<open>_post_clean\<close> validates the cleaned values against the model's fields.  \<open>save()\<close> raises \<open>ValueError\<close> on an invalid form; otherwise it
  builds the instance from the cleaned data (\<open>construct_instance\<close>) and inserts
  it.  \<open>completed\<close> is not a field of the form, so the instance keeps the model's
  default, whatever the payload says.
\<close>

section \<open>The form\<close>

definition task_form_fields :: "(string \<times> field_kind) list" where
  "task_form_fields =
     [(''title'', CharField title_max_length), (''due_date'', DateField), (''category'', ModelChoiceField)]"

text \<open>
  The choices of the \<open>category\<close> field, \<open>Category.objects.all()\<close>: every category, in
  primary-key order.
\<close>

definition category_choices :: "store \<Rightarrow> category list" where
  "category_choices s = categories s"

record bound_form =
  form_data :: query_dict
  form_errors :: "(string \<times> field_error list) list"
  cleaned_data :: "(string \<times> field_value) list"

fun clean_fields ::
  "store \<Rightarrow> query_dict \<Rightarrow> (string \<times> field_kind) list \<Rightarrow>
     (string \<times> field_error list) list \<times> (string \<times> field_value) list" where
  "clean_fields s d [] = ([], [])"
| "clean_fields s d ((n, k) # fs) =
     (let (es, cd) = clean_fields s d fs
      in case clean_field s k (qd_get d n) of
           Inl e \<Rightarrow> ((n, e) # es, cd)
         | Inr v \<Rightarrow> (es, (n, v) # cd))"

text \<open>
  Model validation of one cleaned value (\<open>Model.clean_fields\<close> on the instance that
  \<open>construct_instance\<close> filled): \<open>title\<close> is a \<open>CharField(max_length=100)\<close> with
  \<open>blank=False\<close> (\<open>blank\<close>, then \<open>MaxLengthValidator\<close>), \<open>category\<close> a
  \<open>ForeignKey\<close> whose \<open>validate\<close> checks that the row exists (\<open>invalid\<close>); a
  \<open>DateField\<close> holding a \<open>date\<close> raises nothing.
\<close>

definition model_field_errors :: "store \<Rightarrow> string \<times> field_value \<Rightarrow> field_error list" where
  "model_field_errors s nx =
     (case nx of
        (n, VStr t) \<Rightarrow>
          if n = ''title'' then
            (if t = [] then [Blank] else []) @
            (if title_max_length < length t then [MaxLength title_max_length (length t)] else [])
          else []
      | (n, VRef k) \<Rightarrow> if n = ''category'' \<and> k \<notin> set (category_ids s) then [InvalidRelated] else []
      | (n, VDate dd) \<Rightarrow> [])"

text \<open>
  \<open>ModelForm._post_clean\<close>: fields that failed cleaning and fields not in the form
  are excluded (\<open>_get_validation_exclusions\<close>), so only the cleaned values are
  validated; \<open>_update_errors\<close> adds each field's errors with \<open>add_error\<close>, which
  also drops the field from \<open>cleaned_data\<close>.  No field of \<open>Task\<close> but the key is
  unique, so \<open>validate_unique\<close> finds nothing.
\<close>

definition post_clean ::
  "store \<Rightarrow> (string \<times> field_error list) list \<times> (string \<times> field_value) list \<Rightarrow>
     (string \<times> field_error list) list \<times> (string \<times> field_value) list" where
  "post_clean s ec =
     (case ec of
        (es, cd) \<Rightarrow>
          let pe = List.map_filter (\<lambda>nx. case model_field_errors s nx of [] \<Rightarrow> None | e \<Rightarrow> Some (fst nx, e)) cd
          in (es @ pe, filter (\<lambda>nx. fst nx \<notin> set (map fst pe)) cd))"

text \<open>
  \<open>TaskForm(data)\<close> followed by \<open>full_clean()\<close> against the current datastore:
  \<open>_clean_fields\<close>, then \<open>_post_clean\<close>.
\<close>

definition task_form :: "store \<Rightarrow> query_dict \<Rightarrow> bound_form" where
  "task_form s d =
     (let (es, cd) = post_clean s (clean_fields s d task_form_fields)
      in \<lparr>form_data = d, form_errors = es, cleaned_data = cd\<rparr>)"

definition form_is_valid :: "bound_form \<Rightarrow> bool" where
  "form_is_valid f \<longleftrightarrow> form_errors f = []"

text \<open>
  \<open>construct_instance\<close>: the title, due date and category read from the cleaned data
  (\<open>None\<close> if one is missing, which a valid form excludes).
\<close>

definition construct_task :: "(string \<times> field_value) list \<Rightarrow> (string \<times> date \<times> nat) option" where
  "construct_task cd =
     (case (map_of cd ''title'', map_of cd ''due_date'', map_of cd ''category'') of
        (Some (VStr ti), Some (VDate dd), Some (VRef ca)) \<Rightarrow> Some (ti, dd, ca)
      | _ \<Rightarrow> None)"

datatype save_error = SaveInvalid

definition form_save :: "store \<Rightarrow> bound_form \<Rightarrow> save_error + (store \<times> task)" where
  "form_save s f =
     (if \<not> form_is_valid f then Inl SaveInvalid
      else (case construct_task (cleaned_data f) of
              None \<Rightarrow> Inl SaveInvalid
            | Some (ti, dd, ca) \<Rightarrow> Inr (task_create s ti dd completed_default ca)))"

section \<open>Lemmas on cleaning\<close>

lemma clean_fields_eq:
  "clean_fields s d fs =
     (List.map_filter (\<lambda>(n, k). case clean_field s k (qd_get d n) of Inl e \<Rightarrow> Some (n, e) | Inr _ \<Rightarrow> None) fs,
      List.map_filter (\<lambda>(n, k). case clean_field s k (qd_get d n) of Inl _ \<Rightarrow> None | Inr v \<Rightarrow> Some (n, v)) fs)"
  by (induction s d fs rule: clean_fields.induct)
    (auto simp: List.map_filter_def split: sum.splits prod.splits)

lemma clean_fields_typed:
  "(n, x) \<in> set (snd (clean_fields s d fs)) \<Longrightarrow> \<exists>k. (n, k) \<in> set fs \<and> value_of_kind s k x"
proof -
  assume "(n, x) \<in> set (snd (clean_fields s d fs))"
  then obtain k where "(n, k) \<in> set fs" "clean_field s k (qd_get d n) = Inr x"
    by (auto simp: clean_fields_eq in_set_map_filter split: sum.splits)
  then show ?thesis by (blast dest: clean_field_value_of_kind)
qed

text \<open>Model validation finds nothing to object to in values of the right type.\<close>

lemma model_field_errors_typed:
  "(n, k) \<in> set task_form_fields \<Longrightarrow> value_of_kind s k x \<Longrightarrow> model_field_errors s (n, x) = []"
  by (cases x) (auto simp: task_form_fields_def model_field_errors_def title_max_length_def)

lemma post_clean_typed:
  assumes "\<forall>(n, x) \<in> set cd. \<exists>k. (n, k) \<in> set task_form_fields \<and> value_of_kind s k x"
  shows "post_clean s (es, cd) = (es, cd)"
proof -
  have "\<forall>nx \<in> set cd. model_field_errors s nx = []"
    using assms model_field_errors_typed by fastforce
  then have "List.map_filter (\<lambda>nx. case model_field_errors s nx of [] \<Rightarrow> None | e \<Rightarrow> Some (fst nx, e)) cd = []"
    by (induction cd) auto
  then show ?thesis by (simp add: post_clean_def)
qed

lemma post_clean_clean_fields:
  "post_clean s (clean_fields s d task_form_fields) = clean_fields s d task_form_fields"
  using post_clean_typed [of "snd (clean_fields s d task_form_fields)" s "fst (clean_fields s d task_form_fields)"]
    clean_fields_typed [of _ _ s d task_form_fields]
  by fastforce

lemma form_errors_task_form:
  "form_errors (task_form s d) =
     List.map_filter (\<lambda>(n, k). case clean_field s k (qd_get d n) of Inl e \<Rightarrow> Some (n, e) | Inr _ \<Rightarrow> None)
       task_form_fields"
  unfolding task_form_def post_clean_clean_fields by (simp add: clean_fields_eq)

lemma cleaned_data_task_form:
  "cleaned_data (task_form s d) =
     List.map_filter (\<lambda>(n, k). case clean_field s k (qd_get d n) of Inl _ \<Rightarrow> None | Inr v \<Rightarrow> Some (n, v))
       task_form_fields"
  unfolding task_form_def post_clean_clean_fields by (simp add: clean_fields_eq)

lemma task_form_data [simp]: "form_data (task_form s d) = d"
  by (simp add: task_form_def split: prod.split)

lemmas task_form_parts = form_errors_task_form cleaned_data_task_form task_form_fields_def clean_field_def

lemma map_of_map_filter_fields:
  "map_of (List.map_filter (\<lambda>(n, k). case g n k of Inl e \<Rightarrow> Some (n, e) | Inr _ \<Rightarrow> None) task_form_fields) n =
     (case map_of task_form_fields n of None \<Rightarrow> None | Some k \<Rightarrow> (case g n k of Inl e \<Rightarrow> Some e | Inr _ \<Rightarrow> None))"
  by (auto simp: task_form_fields_def split: sum.splits)

text \<open>
  C3. Errors are collected field by field: the error list recorded under a field of
  \<open>TaskForm\<close> is exactly what that field's own cleaner reports on that field's own
  raw value, whatever the other fields contain (no short-circuit).
\<close>

theorem task_form_field_error:
  assumes "(n, k) \<in> set task_form_fields"
  shows "map_of (form_errors (task_form s d)) n =
           (case clean_field s k (qd_get d n) of Inl e \<Rightarrow> Some e | Inr _ \<Rightarrow> None)"
proof -
  have "map_of task_form_fields n = Some k"
    using assms by (auto simp: task_form_fields_def)
  then show ?thesis by (simp add: form_errors_task_form map_of_map_filter_fields)
qed

text \<open>
  C19. The cleaned data of \<open>TaskForm\<close> is well typed: every entry is named after a
  field of the form and holds a value of that field's type (a stripped title within
  100 characters, an existing date, an existing category).
\<close>

theorem task_form_cleaned_data_typed:
  assumes "(n, x) \<in> set (cleaned_data (task_form s d))"
  shows "\<exists>k. (n, k) \<in> set task_form_fields \<and> value_of_kind s k x"
proof -
  from assms obtain k where "(n, k) \<in> set task_form_fields" "clean_field s k (qd_get d n) = Inr x"
    by (auto simp: cleaned_data_task_form in_set_map_filter split: sum.splits)
  then show ?thesis by (blast dest: clean_field_value_of_kind)
qed

text \<open>
  With the model validators as the specification describes \<open>models.py\<close> (title not
  blank and at most 100 characters, the category existing), model validation in
  \<open>_post_clean\<close> is redundant for \<open>TaskForm\<close>: it adds no
  error and drops no cleaned value, so the bound form is exactly what the field
  cleaning of \<open>title\<close>, \<open>due_date\<close> and \<open>category\<close> produced.
\<close>

theorem task_form_post_clean_redundant:
  "task_form s d =
     \<lparr>form_data = d, form_errors = fst (clean_fields s d task_form_fields),
      cleaned_data = snd (clean_fields s d task_form_fields)\<rparr>"
proof -
  have "\<forall>(n, x) \<in> set (snd (clean_fields s d task_form_fields)).
          \<exists>k. (n, k) \<in> set task_form_fields \<and> value_of_kind s k x"
    using clean_fields_typed by fast
  from post_clean_typed [OF this, of "fst (clean_fields s d task_form_fields)"] show ?thesis
    by (simp add: task_form_def case_prod_beta)
qed

lemma form_is_valid_task_form:
  "form_is_valid (task_form s d) \<longleftrightarrow>
     (\<forall>(n, k) \<in> set task_form_fields. \<exists>v. clean_field s k (qd_get d n) = Inr v)"
  by (auto simp: form_is_valid_def form_errors_task_form task_form_fields_def
      split: sum.splits)

lemma task_form_valid_iff:
  "form_is_valid (task_form s d) \<longleftrightarrow>
     title_ok (py_strip (raw_text (qd_get d ''title''))) \<and>
     (\<exists>dd. date_field_clean (qd_get d ''due_date'') = Inr (VDate dd)) \<and>
     (\<exists>k. model_choice_clean s (qd_get d ''category'') = Inr (VRef k))"
proof -
  have t: "(\<exists>v. char_field_clean title_max_length x = Inr v) \<longleftrightarrow> title_ok (py_strip (raw_text x))" for x
    by (auto simp: char_field_clean_ok_iff title_ok_def)
  have dt: "(\<exists>v. date_field_clean x = Inr v) \<longleftrightarrow> (\<exists>dd. date_field_clean x = Inr (VDate dd))" for x
    by (auto simp: date_field_clean_ok_iff)
  have c: "(\<exists>v. model_choice_clean s x = Inr v) \<longleftrightarrow> (\<exists>k. model_choice_clean s x = Inr (VRef k))" for x
    by (auto dest: model_choice_clean_ok)
  show ?thesis
    by (simp add: form_is_valid_task_form task_form_fields_def clean_field_def t dt c)
qed

lemma form_save_task:
  assumes t: "title_ok (py_strip (raw_text (qd_get d ''title'')))"
      and dt: "date_field_clean (qd_get d ''due_date'') = Inr (VDate dd)"
      and c: "model_choice_clean s (qd_get d ''category'') = Inr (VRef k)"
  shows "form_save s (task_form s d) =
           Inr (task_create s (py_strip (raw_text (qd_get d ''title''))) dd False k)"
proof -
  have ct: "char_field_clean title_max_length (qd_get d ''title'') = Inr (VStr (py_strip (raw_text (qd_get d ''title''))))"
    using t by (simp add: char_field_clean_title_ok)
  have v: "form_is_valid (task_form s d)"
    using t dt c by (auto simp: task_form_valid_iff)
  have "construct_task (cleaned_data (task_form s d)) = Some (py_strip (raw_text (qd_get d ''title'')), dd, k)"
    using ct dt c by (simp add: cleaned_data_task_form task_form_fields_def clean_field_def construct_task_def)
  then show ?thesis using v by (simp add: form_save_def completed_default_def)
qed

lemma form_save_Inr:
  "form_save s (task_form s d) = Inr r \<Longrightarrow>
     \<exists>dd k. form_is_valid (task_form s d) \<and> date_field_clean (qd_get d ''due_date'') = Inr (VDate dd) \<and>
       model_choice_clean s (qd_get d ''category'') = Inr (VRef k) \<and>
       title_ok (py_strip (raw_text (qd_get d ''title''))) \<and>
       r = task_create s (py_strip (raw_text (qd_get d ''title''))) dd False k"
proof -
  assume a: "form_save s (task_form s d) = Inr r"
  then have v: "form_is_valid (task_form s d)" by (auto simp: form_save_def split: if_splits)
  then obtain dd k where "date_field_clean (qd_get d ''due_date'') = Inr (VDate dd)"
      "model_choice_clean s (qd_get d ''category'') = Inr (VRef k)"
      "title_ok (py_strip (raw_text (qd_get d ''title'')))"
    by (auto simp: task_form_valid_iff)
  with a v show ?thesis using form_save_task by fastforce
qed

lemma model_choice_clean_unknown:
  "k \<notin> set (category_ids s) \<Longrightarrow> model_choice_clean s (Some (show_nat k)) = Inl [InvalidChoice]"
  by (simp add: model_choice_clean_def python_int_show_nat get_category_None_iff [symmetric])

lemma form_errors_lookup:
  "map_of (form_errors (task_form s d)) n =
     (case map_of task_form_fields n of
        None \<Rightarrow> None
      | Some k \<Rightarrow> (case clean_field s k (qd_get d n) of Inl e \<Rightarrow> Some e | Inr _ \<Rightarrow> None))"
  by (simp add: form_errors_task_form map_of_map_filter_fields)

lemma form_errors_lookup_not_valid:
  "map_of (form_errors f) n = Some e \<Longrightarrow> \<not> form_is_valid f"
  by (auto simp: form_is_valid_def)

text \<open>
  C4. A title longer than 100 code points after stripping makes the form invalid,
  with a \<open>max_length\<close> error on the title field that reports the actual length.
\<close>

theorem task_form_title_too_long:
  assumes "title_max_length < length (py_strip (raw_text (qd_get d ''title'')))"
  shows "\<not> form_is_valid (task_form s d) \<and>
         (\<exists>e. map_of (form_errors (task_form s d)) ''title'' = Some e \<and>
              MaxLength title_max_length (length (py_strip (raw_text (qd_get d ''title'')))) \<in> set e)"
proof -
  let ?x = "py_strip (raw_text (qd_get d ''title''))"
  have ne: "?x \<noteq> []" using assms by auto
  have "char_field_clean title_max_length (qd_get d ''title'') =
          Inl (MaxLength title_max_length (length ?x) # (if CHR 0x00 \<in> set ?x then [NullCharacters] else []))"
    using assms ne by (cases "qd_get d ''title''") (auto simp: char_field_clean_def raw_text_def Let_def)
  then have "map_of (form_errors (task_form s d)) ''title'' =
      Some (MaxLength title_max_length (length ?x) # (if CHR 0x00 \<in> set ?x then [NullCharacters] else []))"
    by (simp add: form_errors_lookup task_form_fields_def clean_field_def)
  then show ?thesis by (auto dest: form_errors_lookup_not_valid)
qed

text \<open>
  C5. A category key that names no existing category makes the form invalid, with
  exactly the \<open>invalid_choice\<close> error on the category field.
\<close>

theorem task_form_unknown_category:
  assumes "qd_get d ''category'' = Some (show_nat k)" and "k \<notin> set (category_ids s)"
  shows "\<not> form_is_valid (task_form s d) \<and>
         map_of (form_errors (task_form s d)) ''category'' = Some [InvalidChoice]"
proof -
  have "map_of (form_errors (task_form s d)) ''category'' = Some [InvalidChoice]"
    using model_choice_clean_unknown [OF assms(2)] assms(1)
    by (simp add: form_errors_lookup task_form_fields_def clean_field_def)
  then show ?thesis by (auto dest: form_errors_lookup_not_valid)
qed

lemma form_save_invalid: "\<not> form_is_valid f \<Longrightarrow> form_save s f = Inl SaveInvalid"
  by (simp add: form_save_def)

end
