(* ===== verification/Views.thy ===== *)
theory Views
  imports Forms
begin

text \<open>
  The single view \<open>index\<close> (\<open>src/tasks/views.py\<close>), served under the route name
  \<open>tasks:index\<close>.  It builds two querysets, the tasks to do and the tasks done, each
  \<open>filter(completed=...)\<close> and \<open>order_by('due_date')\<close>; on a \<open>POST\<close> it binds
  \<open>TaskForm\<close> to the payload and, when the form is valid, saves it and redirects to
  itself; otherwise (any other method, or an invalid form) it renders
  \<open>tasks/index.html\<close> with the two lists and the form, unbound or bound with its
  errors.  Querysets are lazy: the lists are read when the template is rendered,
  that is from the datastore as it is after the request, which on the render paths
  is the datastore before it.  \<open>ORDER BY due_date\<close> leaves the order of equal dates
  to the database; the model fixes it to primary-key order, the insertion order
  of the table (a stable sort of the table in key order).
\<close>

section \<open>Requests, contexts and responses\<close>

record request =
  request_method :: string
  post_data :: query_dict

datatype form_state = Unbound | Bound bound_form

record page_context =
  to_do_tasks :: "task list"
  done_tasks :: "task list"
  context_form :: form_state

text \<open>
  \<open>redirect('tasks:index')\<close> (an \<open>HttpResponseRedirect\<close>), \<open>render(request,
  template, context)\<close>, and an exception escaping the view.
\<close>

datatype response = Redirect string | Render string page_context | ServerError

definition status_code :: "response \<Rightarrow> nat" where
  "status_code r = (case r of Redirect _ \<Rightarrow> 302 | Render _ _ \<Rightarrow> 200 | ServerError \<Rightarrow> 500)"

section \<open>The view\<close>

definition to_do_query :: "store \<Rightarrow> task list" where
  "to_do_query s = sort_key due_date (filter (\<lambda>t. \<not> completed t) (tasks s))"

definition done_query :: "store \<Rightarrow> task list" where
  "done_query s = sort_key due_date (filter (\<lambda>t. completed t) (tasks s))"

definition index_context :: "store \<Rightarrow> form_state \<Rightarrow> page_context" where
  "index_context s f = \<lparr>to_do_tasks = to_do_query s, done_tasks = done_query s, context_form = f\<rparr>"

definition index :: "store \<Rightarrow> request \<Rightarrow> response \<times> store" where
  "index s req =
     (if request_method req = ''POST'' then
        (let f = task_form s (post_data req)
         in if form_is_valid f then
              (case form_save s f of
                 Inr (s', _) \<Rightarrow> (Redirect ''tasks:index'', s')
               | Inl _ \<Rightarrow> (ServerError, s))
            else (Render ''tasks/index.html'' (index_context s (Bound f)), s))
      else (Render ''tasks/index.html'' (index_context s Unbound), s))"


text \<open>
  A run of requests served one after another, each against the datastore the
  previous one left: the responses in order and the final datastore.
\<close>

fun serve :: "store \<Rightarrow> request list \<Rightarrow> response list \<times> store" where
  "serve s [] = ([], s)"
| "serve s (q # qs) = (let (r, s1) = index s q; (rs, s2) = serve s1 qs in (r # rs, s2))"

section \<open>Behaviour of the view\<close>

text \<open>
  C1. A \<open>POST\<close> whose title strips to a valid title, whose due date parses and whose
  category names an existing category is answered with a redirect to
  \<open>tasks:index\<close>, and the datastore gains exactly one task, with the next key, the
  stripped title, the parsed date, that category, and \<open>completed = False\<close>.
\<close>

theorem index_post_valid:
  assumes "request_method req = ''POST''"
      and "title_ok (py_strip (raw_text (qd_get (post_data req) ''title'')))"
      and "date_field_clean (qd_get (post_data req) ''due_date'') = Inr (VDate dd)"
      and "model_choice_clean s (qd_get (post_data req) ''category'') = Inr (VRef k)"
  shows "index s req =
           (Redirect ''tasks:index'',
            fst (task_create s (py_strip (raw_text (qd_get (post_data req) ''title''))) dd False k))"
proof -
  have v: "form_is_valid (task_form s (post_data req))"
    using assms by (auto simp: task_form_valid_iff)
  show ?thesis
    using assms v form_save_task [OF assms(2-4)] by (simp add: index_def prod.case_eq_if)
qed

text \<open>
  C2. A \<open>POST\<close> whose form is invalid is answered by rendering the page with the
  bound form (its data and errors) and the current lists; nothing is stored.
\<close>

theorem index_post_invalid:
  assumes "request_method req = ''POST''" and "\<not> form_is_valid (task_form s (post_data req))"
  shows "index s req = (Render ''tasks/index.html'' (index_context s (Bound (task_form s (post_data req)))), s)"
  using assms by (simp add: index_def)

text \<open>
  C9. Any request that is not a \<open>POST\<close> renders the page with an unbound form and
  the current lists, and leaves the datastore unchanged.
\<close>

theorem index_not_post:
  assumes "request_method req \<noteq> ''POST''"
  shows "index s req = (Render ''tasks/index.html'' (index_context s Unbound), s)"
  using assms by (simp add: index_def)

lemma form_save_valid_Inr:
  "form_is_valid (task_form s d) \<Longrightarrow> \<exists>s' t. form_save s (task_form s d) = Inr (s', t)"
  by (auto simp: task_form_valid_iff dest: form_save_task)

text \<open>
  C8. The status code of the response: 302 exactly for a \<open>POST\<close> with a valid form,
  200 otherwise; the view never fails with a server error.
\<close>

theorem index_status_code:
  "status_code (fst (index s req)) =
     (if request_method req = ''POST'' \<and> form_is_valid (task_form s (post_data req)) then 302 else 200)"
proof (cases "request_method req = ''POST'' \<and> form_is_valid (task_form s (post_data req))")
  case True
  then obtain s' t where "form_save s (task_form s (post_data req)) = Inr (s', t)"
    using form_save_valid_Inr by blast
  with True show ?thesis by (simp add: index_def status_code_def)
next
  case False
  then show ?thesis by (auto simp: index_def status_code_def Let_def)
qed

text \<open>
  C6. The to-do and done lists together hold every task exactly once (as multisets),
  the to-do list only tasks that are not completed and the done list only completed
  ones.
\<close>

theorem queries_partition:
  "mset (to_do_query s) + mset (done_query s) = mset (tasks s) \<and>
   list_all (\<lambda>t. \<not> completed t) (to_do_query s) \<and> list_all completed (done_query s)"
  using filter_mset_partition [of "\<lambda>t. \<not> completed t" "tasks s"]
  by (auto simp: to_do_query_def done_query_def list_all_iff add.commute)

text \<open>C7. Both lists are ordered by due date, earliest first.\<close>

theorem queries_sorted:
  "sorted (map due_date (to_do_query s)) \<and> sorted (map due_date (done_query s))"
  by (simp add: to_do_query_def done_query_def)

lemma index_valid_post:
  assumes "request_method req = ''POST''" and "form_is_valid (task_form s (post_data req))"
  shows "\<exists>ti dd k. title_ok ti \<and> valid_date dd \<and> k \<in> set (category_ids s) \<and>
           index s req = (Redirect ''tasks:index'', fst (task_create s ti dd False k))"
proof -
  obtain s1 t where sv: "form_save s (task_form s (post_data req)) = Inr (s1, t)"
    using form_save_valid_Inr assms(2) by blast
  then obtain dd k where
      dt: "date_field_clean (qd_get (post_data req) ''due_date'') = Inr (VDate dd)"
      and c: "model_choice_clean s (qd_get (post_data req) ''category'') = Inr (VRef k)"
      and ti: "title_ok (py_strip (raw_text (qd_get (post_data req) ''title'')))"
      and st: "(s1, t) = task_create s (py_strip (raw_text (qd_get (post_data req) ''title''))) dd False k"
    by (blast dest: form_save_Inr)
  have "index s req = (Redirect ''tasks:index'', s1)" using assms sv by (simp add: index_def)
  moreover have "valid_date dd" using dt by (rule date_field_clean_valid)
  moreover have "k \<in> set (category_ids s)" using c by (auto dest: model_choice_clean_ok)
  ultimately show ?thesis using ti st by (metis fst_conv)
qed

lemma index_other:
  assumes "\<not> (request_method req = ''POST'' \<and> form_is_valid (task_form s (post_data req)))"
  shows "index s req = (Render ''tasks/index.html'' (index_context s
           (if request_method req = ''POST'' then Bound (task_form s (post_data req)) else Unbound)), s)"
  using assms by (auto simp: index_def Let_def)

text \<open>
  The payload a browser sends for a task with a valid title, a valid date in ISO
  form and an existing category: the view saves it and redirects.
\<close>

lemma index_post_fields:
  assumes "title_ok ti" "valid_date dd" "c \<in> set (categories s)"
  shows "index s \<lparr>request_method = ''POST'',
                  post_data = [(''title'', ti), (''due_date'', date_isoformat dd), (''category'', show_nat (category_id c))]\<rparr> =
           (Redirect ''tasks:index'', fst (task_create s ti dd False (category_id c)))"
proof -
  let ?d = "[(''title'', ti), (''due_date'', date_isoformat dd), (''category'', show_nat (category_id c))]"
  have q: "qd_get ?d ''title'' = Some ti" "qd_get ?d ''due_date'' = Some (date_isoformat dd)"
      "qd_get ?d ''category'' = Some (show_nat (category_id c))"
    by (simp_all add: qd_get_def)
  have t: "title_ok (py_strip (raw_text (qd_get ?d ''title'')))"
    using assms(1) by (simp add: q raw_text_def title_ok_def)
  have "py_strip (date_isoformat dd) = date_isoformat dd"
    by (rule py_strip_no_space [OF date_isoformat_no_space])
  then have dt: "date_field_clean (qd_get ?d ''due_date'') = Inr (VDate dd)"
    using date_field_clean_iso_first [OF date_isoformat_ne] strptime_date_isoformat [OF assms(2)] by (simp add: q)
  have "category_id c \<in> set (category_ids s)" using assms(3) by (simp add: category_ids_def)
  then have ca: "model_choice_clean s (qd_get ?d ''category'') = Inr (VRef (category_id c))"
    by (simp add: q model_choice_clean_id)
  have "form_is_valid (task_form s ?d)" using t dt ca by (auto simp: task_form_valid_iff)
  moreover have "py_strip (raw_text (qd_get ?d ''title'')) = ti"
    using assms(1) by (simp add: q raw_text_def title_ok_def)
  ultimately show ?thesis using form_save_task [OF t dt ca] by (simp add: index_def split: prod.split)
qed

text \<open>The two outcomes of one request, by status code.\<close>

lemma index_outcome:
  assumes "index s req = (r, s')"
  shows "(status_code r = 302 \<and> (\<exists>ti dd k. title_ok ti \<and> valid_date dd \<and> k \<in> set (category_ids s) \<and>
            s' = fst (task_create s ti dd False k))) \<or> (status_code r = 200 \<and> s' = s)"
proof (cases "request_method req = ''POST'' \<and> form_is_valid (task_form s (post_data req))")
  case True
  then obtain ti dd k where "title_ok ti" "valid_date dd" "k \<in> set (category_ids s)"
      "index s req = (Redirect ''tasks:index'', fst (task_create s ti dd False k))"
    using index_valid_post by blast
  then show ?thesis using assms by (auto simp: status_code_def)
next
  case False
  then show ?thesis using assms index_other [of req s] by (auto simp: status_code_def)
qed

text \<open>
  C21. Runs of requests refine the service: serving any sequence of requests
  answers each one, with 302 or 200, and the datastore grows by exactly one new
  task per 302, appended in order with consecutive keys, each uncompleted, with a
  validated title and date and an existing category; the categories are unchanged.
\<close>

theorem serve_refines_service:
  assumes "serve s qs = (rs, s')"
  shows "length rs = length qs \<and> (\<forall>r \<in> set rs. status_code r = 302 \<or> status_code r = 200) \<and>
         categories s' = categories s \<and>
         (\<exists>ts. tasks s' = tasks s @ ts \<and> length ts = length (filter (\<lambda>r. status_code r = 302) rs) \<and>
               map task_id ts = [next_task_id s..<next_task_id s + length ts] \<and>
               next_task_id s' = next_task_id s + length ts \<and>
               (\<forall>t \<in> set ts. \<not> completed t \<and> title_ok (title t) \<and> valid_date (due_date t) \<and>
                  task_category t \<in> set (category_ids s)))"
  using assms
proof (induction qs arbitrary: s rs s')
  case Nil
  then show ?case by auto
next
  case (Cons q qs)
  obtain r s1 where i: "index s q = (r, s1)" by (cases "index s q")
  obtain rs1 s2 where sv: "serve s1 qs = (rs1, s2)" by (cases "serve s1 qs")
  have rs: "rs = r # rs1" "s' = s2" using Cons.prems i sv by auto
  from Cons.IH [OF sv] obtain ts where ih:
      "length rs1 = length qs" "\<forall>r \<in> set rs1. status_code r = 302 \<or> status_code r = 200"
      "categories s2 = categories s1" "tasks s2 = tasks s1 @ ts"
      "length ts = length (filter (\<lambda>r. status_code r = 302) rs1)"
      "map task_id ts = [next_task_id s1..<next_task_id s1 + length ts]"
      "next_task_id s2 = next_task_id s1 + length ts"
      "\<forall>t \<in> set ts. \<not> completed t \<and> title_ok (title t) \<and> valid_date (due_date t) \<and>
         task_category t \<in> set (category_ids s1)" by blast
  from index_outcome [OF i] show ?case
  proof
    assume "status_code r = 302 \<and> (\<exists>ti dd k. title_ok ti \<and> valid_date dd \<and> k \<in> set (category_ids s) \<and>
              s1 = fst (task_create s ti dd False k))"
    then obtain ti dd k where r: "status_code r = 302" and v: "title_ok ti" "valid_date dd" "k \<in> set (category_ids s)"
        and s1: "s1 = fst (task_create s ti dd False k)" by blast
    let ?t = "snd (task_create s ti dd False k)"
    have "map task_id (?t # ts) = [next_task_id s..<next_task_id s + length (?t # ts)]"
      using ih(6) s1 by (simp add: upt_rec)
    moreover have "category_ids s1 = category_ids s" using s1 by simp
    ultimately show ?thesis using ih rs r v s1
      by (intro conjI exI [of _ "?t # ts"]) auto
  next
    assume "status_code r = 200 \<and> s1 = s"
    then show ?thesis using ih rs by auto
  qed
qed

end
