(* ===== verification/Tests.thy ===== *)
theory Tests
  imports Views
begin

text \<open>
  The repository's test suite (\<open>src/tasks/test_forms.py\<close>, \<open>test_models.py\<close>,
  \<open>test_views.py\<close>) as scenarios over the model: each \<open>setUp\<close> is a datastore built
  from the empty one, each test method a boolean that holds exactly when all of its
  assertions hold in the model.  Python values in form data are written as the
  strings the form reads (\<open>False\<close> as \<open>'False'\<close>, a key as its decimal digits);
  model instances compare by primary key, as Django's \<open>Model.__eq__\<close> does.  The
  superuser and the login of \<open>test_views.setUp\<close> are not modelled (the view does not
  consult the user).  \<open>date.today()\<close> is a parameter of \<open>test_models\<close>.
  \<open>test_due_date_required\<close> is left out: its \<open>isinstance(due_date, date)\<close> check
  holds by the type of the model's \<open>due_date\<close>.  The replays below are regression
  lemmas; the witnesses of the properties follow them.
\<close>

section \<open>\<open>test_forms.py\<close>\<close>

definition forms_setUp :: store where
  "forms_setUp = fst (category_create empty_store ''Test Category'')"

definition forms_category :: category where
  "forms_category = snd (category_create empty_store ''Test Category'')"

definition form_has_error :: "bound_form \<Rightarrow> string \<Rightarrow> bool" where
  "form_has_error f n \<longleftrightarrow> map_of (form_errors f) n \<noteq> None"

definition test_task_form_valid_data :: bool where
  "test_task_form_valid_data \<longleftrightarrow>
     form_is_valid (task_form forms_setUp
       [(''title'', ''Test Task''), (''due_date'', ''2024-12-31''), (''completed'', ''False''),
        (''category'', show_nat (category_id forms_category))])"

definition test_task_form_invalid_data :: bool where
  "test_task_form_invalid_data \<longleftrightarrow>
     (let f = task_form forms_setUp
                [(''title'', ''''), (''due_date'', ''''), (''completed'', ''False''),
                 (''category'', show_nat (category_id forms_category))]
      in \<not> form_is_valid f \<and> form_has_error f ''title'' \<and> form_has_error f ''due_date'')"

definition test_task_form_category_field :: bool where
  "test_task_form_category_field \<longleftrightarrow>
     map_of task_form_fields ''category'' = Some ModelChoiceField \<and>
     length (category_choices forms_setUp) = 1 \<and>
     (case category_choices forms_setUp of [] \<Rightarrow> False | c # _ \<Rightarrow> category_id c = category_id forms_category)"

definition test_task_form_due_date_field :: bool where
  "test_task_form_due_date_field \<longleftrightarrow> map_of task_form_fields ''due_date'' = Some DateField"

definition test_task_form_title_field :: bool where
  "test_task_form_title_field \<longleftrightarrow> map_of task_form_fields ''title'' = Some (CharField 100)"

definition test_task_form_invalid_category :: bool where
  "test_task_form_invalid_category \<longleftrightarrow>
     (let f = task_form forms_setUp
                [(''title'', ''Test Task''), (''due_date'', ''2024-12-31''), (''completed'', ''False''),
                 (''category'', ''999'')]
      in \<not> form_is_valid f \<and> form_has_error f ''category'')"

definition test_task_form_title_too_long :: bool where
  "test_task_form_title_too_long \<longleftrightarrow>
     (let f = task_form forms_setUp
                [(''title'', replicate 101 (CHR ''A'')), (''due_date'', ''2024-12-31''),
                 (''completed'', ''False''), (''category'', show_nat (category_id forms_category))]
      in \<not> form_is_valid f \<and> form_has_error f ''title'')"

definition test_task_form_invalid_due_date :: bool where
  "test_task_form_invalid_due_date \<longleftrightarrow>
     (let f = task_form forms_setUp
                [(''title'', ''Test Task''), (''due_date'', ''invalid-date''), (''completed'', ''False''),
                 (''category'', show_nat (category_id forms_category))]
      in \<not> form_is_valid f \<and> form_has_error f ''due_date'')"

definition test_task_form_missing_category :: bool where
  "test_task_form_missing_category \<longleftrightarrow>
     (let f = task_form forms_setUp
                [(''title'', ''Test Task''), (''due_date'', ''2024-12-31''), (''completed'', ''False'')]
      in \<not> form_is_valid f \<and> form_has_error f ''category'')"

definition test_task_form_missing_completed :: bool where
  "test_task_form_missing_completed \<longleftrightarrow>
     (let f = task_form forms_setUp
                [(''title'', ''Test Task''), (''due_date'', ''2024-12-31''),
                 (''category'', show_nat (category_id forms_category))]
      in form_is_valid f \<and>
         (case form_save forms_setUp f of Inl _ \<Rightarrow> False | Inr (_, t) \<Rightarrow> \<not> completed t))"

definition test_task_form_missing_due_date :: bool where
  "test_task_form_missing_due_date \<longleftrightarrow>
     (let f = task_form forms_setUp
                [(''title'', ''Test Task''), (''completed'', ''False''),
                 (''category'', show_nat (category_id forms_category))]
      in \<not> form_is_valid f \<and> form_has_error f ''due_date'')"

section \<open>\<open>test_models.py\<close>\<close>

definition models_setUp :: "date \<Rightarrow> store \<times> category \<times> task" where
  "models_setUp today =
     (let (s1, c) = category_create empty_store ''Test Category'';
          (s2, t) = task_create s1 ''Sample Task'' today False (category_id c)
      in (s2, c, t))"

definition test_task_creation :: "date \<Rightarrow> bool" where
  "test_task_creation today \<longleftrightarrow>
     (let (_, c, t) = models_setUp today
      in title t = ''Sample Task'' \<and> due_date t = today \<and> \<not> completed t \<and> task_category t = category_id c)"

definition test_str_returns_title :: "date \<Rightarrow> bool" where
  "test_str_returns_title today \<longleftrightarrow> (let (_, _, t) = models_setUp today in task_str t = ''Sample Task'')"

definition test_default_completed_is_false :: "date \<Rightarrow> bool" where
  "test_default_completed_is_false today \<longleftrightarrow> (let (_, _, t) = models_setUp today in \<not> completed t)"

definition test_category_relationship :: "date \<Rightarrow> bool" where
  "test_category_relationship today \<longleftrightarrow> (let (_, c, t) = models_setUp today in task_category t = category_id c)"

definition test_title_max_length :: "date \<Rightarrow> bool" where
  "test_title_max_length today \<longleftrightarrow> (let (_, _, t) = models_setUp today in length (title t) \<le> 100)"

text \<open>
  \<open>test_title_max_length_error\<close>: \<open>Task.objects.create\<close> with a title of 101
  characters, expected to raise \<open>ValidationError\<close>.  The create is modelled as it
  runs: an insert without validation.
\<close>

definition title_max_length_error_create :: "date \<Rightarrow> store \<times> task" where
  "title_max_length_error_create today =
     (let (s, c, _) = models_setUp today
      in task_create s (replicate 101 (CHR ''A'')) today False (category_id c))"

section \<open>\<open>test_views.py\<close>\<close>

definition views_setUp :: store where
  "views_setUp =
     (let (s1, c) = category_create empty_store ''Test Category'';
          (s2, _) = task_create s1 ''Test Task'' (Date 2024 12 31) False (category_id c);
          (s3, _) = task_create s2 ''Completed Task'' (Date 2024 10 31) True (category_id c)
      in s3)"

definition get_request :: request where
  "get_request = \<lparr>request_method = ''GET'', post_data = []\<rparr>"

definition view_post :: "string \<Rightarrow> request" where
  "view_post ti =
     \<lparr>request_method = ''POST'',
      post_data = [(''title'', ti), (''due_date'', ''2024-11-30''), (''completed'', ''False''), (''category'', ''1'')]\<rparr>"

definition page_of :: "response \<Rightarrow> (string \<times> page_context) option" where
  "page_of r = (case r of Render n c \<Rightarrow> Some (n, c) | _ \<Rightarrow> None)"

definition test_task_list_view_status_code :: bool where
  "test_task_list_view_status_code \<longleftrightarrow>
     (let r = fst (index views_setUp get_request)
      in status_code r = 200 \<and> map_option fst (page_of r) = Some ''tasks/index.html'')"

definition test_task_list_view_context_contains_tasks :: bool where
  "test_task_list_view_context_contains_tasks \<longleftrightarrow>
     (case page_of (fst (index views_setUp get_request)) of
        None \<Rightarrow> False
      | Some (_, c) \<Rightarrow> 1 \<in> set (map task_id (to_do_tasks c)) \<and> 2 \<in> set (map task_id (done_tasks c)))"

definition test_task_create_view_renders_form :: bool where
  "test_task_create_view_renders_form \<longleftrightarrow>
     (let r = fst (index views_setUp get_request)
      in status_code r = 200 \<and>
         (case page_of r of None \<Rightarrow> False | Some (n, c) \<Rightarrow> n = ''tasks/index.html'' \<and> context_form c = Unbound))"

definition test_task_create_view_post_creates_task :: bool where
  "test_task_create_view_post_creates_task \<longleftrightarrow>
     (let (r, s) = index views_setUp (view_post ''New Task'')
      in status_code r = 302 \<and> (\<exists>t \<in> set (tasks s). title t = ''New Task''))"

definition test_invalid_task_creation_does_not_create_task :: bool where
  "test_invalid_task_creation_does_not_create_task \<longleftrightarrow>
     (let (r, s) = index views_setUp (view_post '''')
      in status_code r = 200 \<and> \<not> (\<exists>t \<in> set (tasks s). due_date t = Date 2024 11 30))"


section \<open>The test suite in the model\<close>

text \<open>Every test of \<open>test_forms.py\<close> passes in the model.\<close>

theorem test_forms_pass:
  "test_task_form_valid_data \<and> test_task_form_invalid_data \<and> test_task_form_category_field \<and>
   test_task_form_due_date_field \<and> test_task_form_title_field \<and> test_task_form_invalid_category \<and>
   test_task_form_title_too_long \<and> test_task_form_invalid_due_date \<and>
   test_task_form_missing_category \<and> test_task_form_missing_completed \<and> test_task_form_missing_due_date"
  by code_simp

text \<open>Every test of \<open>test_views.py\<close> passes in the model.\<close>

theorem test_views_pass:
  "test_task_list_view_status_code \<and> test_task_list_view_context_contains_tasks \<and>
   test_task_create_view_renders_form \<and> test_task_create_view_post_creates_task \<and>
   test_invalid_task_creation_does_not_create_task"
  by code_simp

text \<open>
  The tests of \<open>test_models.py\<close> that inspect the task created in \<open>setUp\<close> pass
  in the model, whatever today's date is.
\<close>

theorem test_models_pass:
  "test_task_creation today \<and> test_str_returns_title today \<and> test_default_completed_is_false today \<and>
   test_category_relationship today \<and> test_title_max_length today"
  by (simp add: test_task_creation_def test_str_returns_title_def test_default_completed_is_false_def
      test_category_relationship_def test_title_max_length_def models_setUp_def task_str_def
      category_create_def task_create_def Let_def)

text \<open>
  \<open>test_title_max_length_error\<close> cannot pass: \<open>Task.objects.create\<close> with a
  101-character title returns normally and stores the title, which violates the
  title constraint, instead of raising \<open>ValidationError\<close>.
\<close>

theorem objects_create_skips_validation:
  "title (snd (title_max_length_error_create today)) = replicate 101 (CHR ''A'') \<and>
   snd (title_max_length_error_create today) \<in> set (tasks (fst (title_max_length_error_create today))) \<and>
   \<not> title_ok (title (snd (title_max_length_error_create today))) \<and>
   \<not> wf_store (fst (title_max_length_error_create today))"
  by (simp add: title_max_length_error_create_def models_setUp_def category_create_def task_create_def
      Let_def title_ok_def title_max_length_def wf_store_def)

section \<open>Witnesses\<close>

theorem index_post_valid_witness:
  "request_method (view_post ''New Task'') = ''POST'' \<and>
   title_ok (py_strip (raw_text (qd_get (post_data (view_post ''New Task'')) ''title''))) \<and>
   date_field_clean (qd_get (post_data (view_post ''New Task'')) ''due_date'') = Inr (VDate (Date 2024 11 30)) \<and>
   model_choice_clean (fst (category_create empty_store ''Test Category'')) (qd_get (post_data (view_post ''New Task'')) ''category'') = Inr (VRef 1) \<and>
   index (fst (category_create empty_store ''Test Category'')) (view_post ''New Task'') =
     (Redirect ''tasks:index'',
      fst (task_create (fst (category_create empty_store ''Test Category'')) (py_strip (raw_text (qd_get (post_data (view_post ''New Task'')) ''title'')))
             (Date 2024 11 30) False 1))"
proof -
  have h1: "request_method (view_post ''New Task'') = ''POST''" by code_simp
  have h2: "title_ok (py_strip (raw_text (qd_get (post_data (view_post ''New Task'')) ''title'')))" by code_simp
  have h3: "date_field_clean (qd_get (post_data (view_post ''New Task'')) ''due_date'') = Inr (VDate (Date 2024 11 30))"
    by code_simp
  have h4: "model_choice_clean (fst (category_create empty_store ''Test Category'')) (qd_get (post_data (view_post ''New Task'')) ''category'') = Inr (VRef 1)"
    by code_simp
  show ?thesis by (intro conjI h1 h2 h3 h4 index_post_valid [OF h1 h2 h3 h4])
qed

theorem index_post_invalid_witness:
  "request_method (view_post '''') = ''POST'' \<and> \<not> form_is_valid (task_form (fst (category_create empty_store ''Test Category'')) (post_data (view_post ''''))) \<and>
   index (fst (category_create empty_store ''Test Category'')) (view_post '''') =
     (Render ''tasks/index.html'' (index_context (fst (category_create empty_store ''Test Category'')) (Bound (task_form (fst (category_create empty_store ''Test Category'')) (post_data (view_post ''''))))), fst (category_create empty_store ''Test Category''))"
proof -
  have h1: "request_method (view_post '''') = ''POST''" by code_simp
  have h2: "\<not> form_is_valid (task_form (fst (category_create empty_store ''Test Category'')) (post_data (view_post '''')))" by code_simp
  show ?thesis by (intro conjI h1 h2 index_post_invalid [OF h1 h2])
qed

theorem task_form_field_error_witness:
  "(''title'', CharField title_max_length) \<in> set task_form_fields \<and>
   map_of (form_errors (task_form (fst (category_create empty_store ''Test Category'')) (post_data (view_post '''')))) ''title'' =
     (case clean_field (fst (category_create empty_store ''Test Category'')) (CharField title_max_length) (qd_get (post_data (view_post '''')) ''title'') of
        Inl e \<Rightarrow> Some e | Inr _ \<Rightarrow> None)"
proof -
  have h: "(''title'', CharField title_max_length) \<in> set task_form_fields" by (simp add: task_form_fields_def)
  show ?thesis by (intro conjI h task_form_field_error [OF h])
qed

theorem task_form_title_too_long_witness:
  "title_max_length < length (py_strip (raw_text (qd_get [(''title'', replicate 101 (CHR ''A'')), (''due_date'', ''2024-11-30''), (''category'', ''1'')] ''title''))) \<and>
   \<not> form_is_valid (task_form (fst (category_create empty_store ''Test Category'')) [(''title'', replicate 101 (CHR ''A'')), (''due_date'', ''2024-11-30''), (''category'', ''1'')]) \<and>
   (\<exists>e. map_of (form_errors (task_form (fst (category_create empty_store ''Test Category'')) [(''title'', replicate 101 (CHR ''A'')), (''due_date'', ''2024-11-30''), (''category'', ''1'')])) ''title'' = Some e \<and>
        MaxLength title_max_length (length (py_strip (raw_text (qd_get [(''title'', replicate 101 (CHR ''A'')), (''due_date'', ''2024-11-30''), (''category'', ''1'')] ''title'')))) \<in> set e)"
proof -
  have h: "title_max_length < length (py_strip (raw_text (qd_get [(''title'', replicate 101 (CHR ''A'')), (''due_date'', ''2024-11-30''), (''category'', ''1'')] ''title'')))" by code_simp
  show ?thesis using h task_form_title_too_long [OF h, of "fst (category_create empty_store ''Test Category'')"] by blast
qed

theorem task_form_unknown_category_witness:
  "qd_get [(''title'', ''New Task''), (''due_date'', ''2024-11-30''), (''category'', show_nat 999)] ''category'' = Some (show_nat 999) \<and> 999 \<notin> set (category_ids (fst (category_create empty_store ''Test Category''))) \<and>
   \<not> form_is_valid (task_form (fst (category_create empty_store ''Test Category'')) [(''title'', ''New Task''), (''due_date'', ''2024-11-30''), (''category'', show_nat 999)]) \<and>
   map_of (form_errors (task_form (fst (category_create empty_store ''Test Category'')) [(''title'', ''New Task''), (''due_date'', ''2024-11-30''), (''category'', show_nat 999)])) ''category'' = Some [InvalidChoice]"
proof -
  have h1: "qd_get [(''title'', ''New Task''), (''due_date'', ''2024-11-30''), (''category'', show_nat 999)] ''category'' = Some (show_nat 999)" by code_simp
  have h2: "(999::nat) \<notin> set (category_ids (fst (category_create empty_store ''Test Category'')))" by code_simp
  show ?thesis using h1 h2 task_form_unknown_category [OF h1 h2] by blast
qed

theorem index_not_post_witness:
  "request_method get_request \<noteq> ''POST'' \<and>
   index views_setUp get_request = (Render ''tasks/index.html'' (index_context views_setUp Unbound), views_setUp)"
proof -
  have h: "request_method get_request \<noteq> ''POST''" by (simp add: get_request_def)
  show ?thesis by (intro conjI h index_not_post [OF h])
qed

theorem task_form_cleaned_data_typed_witness:
  "(''due_date'', VDate (Date 2006 10 25)) \<in>
     set (cleaned_data (task_form forms_setUp [(''title'', ''Test Task''), (''due_date'', ''10/25/06''), (''category'', ''1'')])) \<and>
   (\<exists>k. (''due_date'', k) \<in> set task_form_fields \<and> value_of_kind forms_setUp k (VDate (Date 2006 10 25)))"
proof -
  have h: "(''due_date'', VDate (Date 2006 10 25)) \<in>
     set (cleaned_data (task_form forms_setUp [(''title'', ''Test Task''), (''due_date'', ''10/25/06''), (''category'', ''1'')]))"
    by code_simp
  show ?thesis using task_form_cleaned_data_typed [OF h] h by blast
qed

theorem serve_refines_service_witness:
  "serve views_setUp [view_post ''New Task'', get_request, view_post ''''] = (fst (serve views_setUp [view_post ''New Task'', get_request, view_post '''']), snd (serve views_setUp [view_post ''New Task'', get_request, view_post ''''])) \<and>
   length (fst (serve views_setUp [view_post ''New Task'', get_request, view_post ''''])) = length [view_post ''New Task'', get_request, view_post ''''] \<and>
   list_all (\<lambda>r. status_code r = 302 \<or> status_code r = 200) (fst (serve views_setUp [view_post ''New Task'', get_request, view_post ''''])) \<and>
   categories (snd (serve views_setUp [view_post ''New Task'', get_request, view_post ''''])) = categories views_setUp \<and>
   (\<exists>ts. tasks (snd (serve views_setUp [view_post ''New Task'', get_request, view_post ''''])) = tasks views_setUp @ ts \<and>
         length ts = length (filter (\<lambda>r. status_code r = 302) (fst (serve views_setUp [view_post ''New Task'', get_request, view_post '''']))) \<and>
         map task_id ts = [next_task_id views_setUp..<next_task_id views_setUp + length ts] \<and>
         next_task_id (snd (serve views_setUp [view_post ''New Task'', get_request, view_post ''''])) = next_task_id views_setUp + length ts \<and>
         list_all (\<lambda>t. \<not> completed t \<and> title_ok (title t) \<and> valid_date (due_date t) \<and>
            task_category t \<in> set (category_ids views_setUp)) ts)"
proof -
  have h: "serve views_setUp [view_post ''New Task'', get_request, view_post ''''] = (fst (serve views_setUp [view_post ''New Task'', get_request, view_post '''']), snd (serve views_setUp [view_post ''New Task'', get_request, view_post '''']))" by simp
  show ?thesis using serve_refines_service [OF h] h unfolding list_all_iff by blast
qed

end
