(* ===== verification/Admin.thy ===== *)
theory Admin
  imports Models
begin

text \<open>
  The admin site registrations (\<open>src/tasks/admin.py\<close>): \<open>CategoryAdmin\<close> and
  \<open>TaskAdmin\<close> choose the columns of the change lists, and the admin site lets
  staff edit rows.  The change-list row of each model is the list of its
  \<open>list_display\<close> columns; a foreign key is shown by the related category's key
  (\<open>Category.__str__\<close> is not part of the sources).  The admin's edits of the rows
  are modelled as operations on the datastore: setting a task's completion flag,
  changing a task, deleting a task, deleting a category.
\<close>

datatype admin_cell = CellNat nat | CellText string | CellDate date | CellBool bool

definition category_list_display :: "string list" where
  "category_list_display = [''id'', ''name'']"

definition category_admin_row :: "category \<Rightarrow> admin_cell list" where
  "category_admin_row c = [CellNat (category_id c), CellText (category_name c)]"

definition task_list_display :: "string list" where
  "task_list_display = [''id'', ''title'', ''due_date'', ''completed'', ''category'']"

definition task_admin_row :: "task \<Rightarrow> admin_cell list" where
  "task_admin_row t =
     [CellNat (task_id t), CellText (title t), CellDate (due_date t), CellBool (completed t),
      CellNat (task_category t)]"

text \<open>
  The administrator's edit of a task's completion flag through \<open>TaskAdmin\<close>: the row
  at position \<open>i\<close> keeps its key and its other fields.
\<close>

definition admin_set_completed :: "store \<Rightarrow> nat \<Rightarrow> bool \<Rightarrow> store" where
  "admin_set_completed s i b = s\<lparr>tasks := (tasks s)[i := (tasks s ! i)\<lparr>completed := b\<rparr>]\<rparr>"

text \<open>
  The administrator's other edits of \<open>TaskAdmin\<close>.  The add and change forms are
  \<open>ModelForm\<close>s over all fields of \<open>Task\<close>; they accept exactly the values the
  model's fields validate (a title that passes \<open>CharField(max_length=100)\<close>, an
  existing date, an existing category) together with any completion flag.  The
  validation itself is the guard of the step relation in \<open>Spec2Isabelle\<close>; the
  change writes the row with the given key.  \<open>delete_view\<close> removes a row by key.
\<close>

definition admin_change_task :: "store \<Rightarrow> nat \<Rightarrow> string \<Rightarrow> date \<Rightarrow> bool \<Rightarrow> nat \<Rightarrow> store" where
  "admin_change_task s k ti dd co ca =
     s\<lparr>tasks := map (\<lambda>t. if task_id t = k then t\<lparr>title := ti, due_date := dd, completed := co, task_category := ca\<rparr> else t)
                   (tasks s)\<rparr>"

definition admin_delete_task :: "store \<Rightarrow> nat \<Rightarrow> store" where
  "admin_delete_task s k = s\<lparr>tasks := filter (\<lambda>t. task_id t \<noteq> k) (tasks s)\<rparr>"

text \<open>
  Deleting a category through \<open>CategoryAdmin\<close>.  The \<open>on_delete\<close> policy of
  \<open>Task.category\<close> is declared in \<open>models.py\<close>, which is not among the sources, and
  the specification only asks for referential integrity; the two policies that keep
  it are modelled: \<open>CASCADE\<close> deletes the category's tasks with it, \<open>PROTECT\<close>
  raises \<open>ProtectedError\<close> while a task refers to it.
\<close>

datatype on_delete = Cascade | Protect

datatype admin_error = ProtectedError

definition admin_delete_category :: "on_delete \<Rightarrow> store \<Rightarrow> nat \<Rightarrow> admin_error + store" where
  "admin_delete_category pol s k =
     (let s' = s\<lparr>categories := filter (\<lambda>c. category_id c \<noteq> k) (categories s)\<rparr>
      in case pol of
           Cascade \<Rightarrow> Inr (s'\<lparr>tasks := filter (\<lambda>t. task_category t \<noteq> k) (tasks s)\<rparr>)
         | Protect \<Rightarrow> if list_ex (\<lambda>t. task_category t = k) (tasks s) then Inl ProtectedError else Inr s')"

section \<open>Lemmas on the admin\<close>

lemma admin_rows_match_columns:
  "length (category_admin_row c) = length category_list_display \<and>
   length (task_admin_row t) = length task_list_display"
  by (simp add: category_admin_row_def category_list_display_def task_admin_row_def task_list_display_def)

lemma wf_store_change_task:
  assumes "wf_store s" "title_ok ti" "valid_date dd" "ca \<in> set (category_ids s)"
  shows "wf_store (admin_change_task s k ti dd co ca)"
proof -
  let ?s' = "admin_change_task s k ti dd co ca"
  have c: "category_ids ?s' = category_ids s" "next_category_id ?s' = next_category_id s"
      "next_task_id ?s' = next_task_id s"
    by (simp_all add: admin_change_task_def category_ids_def)
  have ids: "map task_id (tasks ?s') = map task_id (tasks s)"
    by (simp add: admin_change_task_def)
  have "\<forall>t \<in> set (tasks ?s'). task_id t < next_task_id s \<and> task_category t \<in> set (category_ids s) \<and>
          title_ok (title t) \<and> valid_date (due_date t)"
    using assms by (auto simp: admin_change_task_def wf_store_def list_all_iff)
  with assms(1) show ?thesis unfolding wf_store_def c ids by (simp add: list_all_iff)
qed

lemma sorted_wrt_map_filter:
  "sorted_wrt r (map f xs) \<Longrightarrow> sorted_wrt r (map f (filter P xs))"
  by (simp add: sorted_wrt_map sorted_wrt_filter)

lemma wf_store_delete_task: "wf_store s \<Longrightarrow> wf_store (admin_delete_task s k)"
  by (auto simp: wf_store_def admin_delete_task_def category_ids_def list_all_iff intro: sorted_wrt_map_filter)

lemma wf_store_delete_category:
  assumes "wf_store s" "admin_delete_category pol s k = Inr s'"
  shows "wf_store s'"
proof -
  have cats: "category_ids s' = filter (\<lambda>i. i \<noteq> k) (category_ids s)" "next_category_id s' = next_category_id s"
      "next_task_id s' = next_task_id s"
    using assms(2) by (auto simp: admin_delete_category_def category_ids_def filter_map comp_def Let_def
        split: on_delete.splits if_splits)
  have ts: "tasks s' = filter (\<lambda>t. task_category t \<noteq> k) (tasks s)"
    using assms(2) by (auto simp: admin_delete_category_def Let_def list_ex_iff split: on_delete.splits if_splits
        intro!: filter_True [symmetric])
  show ?thesis using assms(1) unfolding wf_store_def cats ts
    by (auto simp: list_all_iff intro: sorted_wrt_map_filter sorted_wrt_filter)
qed

end
