(* ===== verification/Spec2Isabelle.thy ===== *)
theory Spec2Isabelle
  imports Tests Admin
begin

text \<open>
  \<^bold>\<open>A verification model of taskmaster's \<open>tasks\<close> application.\<close>

  \<^emph>\<open>The program.\<close>  A Django application with one page.  \<open>src/tasks/views.py\<close>
  defines the view \<open>index\<close>: it lists the tasks to do and the tasks done, each
  ordered by due date, and accepts a \<open>POST\<close> of \<open>TaskForm\<close>
  (\<open>src/tasks/forms.py\<close>, a \<open>ModelForm\<close> over \<open>title\<close>, \<open>due_date\<close> and \<open>category\<close>)
  that, when valid, inserts a task and redirects to the page.  \<open>src/tasks/admin.py\<close>
  registers both models with the admin site.  The models (\<open>tasks/models.py\<close>) are
  not among the sources and are modelled from the specification; the three test
  files are modelled as scenarios.  The parts interact through the datastore only:
  the view reads both tables, the form reads the categories and inserts a task,
  the admin edits rows.

  \<^emph>\<open>Theories, bottom up.\<close>
  \<^item> \<open>Prelude\<close>: named collections of rules, the POST payload as a \<open>QueryDict\<close>
    (\<open>qd_get\<close>: the last value posted under a key), \<open>first_some\<close> (first match
    over alternatives), shared list lemmas.
  \<^item> \<open>PyText\<close>: Python's \<open>str.isspace\<close>, \<open>strip\<close>, \<open>int(str)\<close> and \<open>str(n)\<close> on
    code points 0 to 255.
  \<^item> \<open>Dates\<close>: \<open>datetime.date\<close> with its order (an instance of \<open>linorder\<close>, so
    \<open>sort_key\<close> applies), validity and \<open>isoformat\<close>.
  \<^item> \<open>Strptime\<close>: \<open>datetime.strptime(value, format)\<close> for the directives
    \<open>%Y %y %m %d %b %B %%\<close>: the format compiled as \<open>TimeRE.pattern\<close> does
    (\<open>fmt_items\<close>), the pattern matched with \<open>IGNORECASE\<close>, alternation and
    backtracking, greedy \<^verbatim>\<open>\s+\<close> (\<open>match_items\<close>), the groups read as
    \<open>_strptime\<close> reads them (\<open>apply_group\<close>, pivot of \<open>%y\<close>), then the date check.
  \<^item> \<open>Models\<close>: the \<open>category\<close> and \<open>task\<close> records, the datastore \<open>store\<close>
    (two tables in key order and two key counters), \<open>objects.create\<close>
    (\<open>category_create\<close>, \<open>task_create\<close>: inserts without validation),
    \<open>get_category\<close>, and the well-formedness predicate \<open>wf_store\<close>.
  \<^item> \<open>FormFields\<close>: the fields Django derives from the model for the form
    (\<open>CharField(max_length=100)\<close>, \<open>DateField\<close>, \<open>ModelChoiceField\<close>) and their
    \<open>clean\<close>, errors as \<open>Inl\<close> lists of \<open>field_error\<close>; the eleven
    \<open>DATE_INPUT_FORMATS\<close> of the default language \<open>en-us\<close>, tried in order.
  \<^item> \<open>Forms\<close>: \<open>TaskForm\<close>: \<open>task_form_fields\<close> (\<open>Meta.fields\<close>), binding and
    \<open>full_clean\<close> (\<open>task_form\<close>, \<open>clean_fields\<close>, then \<open>post_clean\<close> with the
    model's validators, \<open>model_field_errors\<close>), \<open>form_is_valid\<close>,
    \<open>form_save\<close> (\<open>ValueError\<close> as \<open>Inl SaveInvalid\<close>).
  \<^item> \<open>Views\<close>: \<open>index\<close> as a function of the datastore and the request returning the
    response (\<open>Redirect\<close>, \<open>Render\<close> with the page context, \<open>ServerError\<close>) and the
    new datastore; the two querysets \<open>to_do_query\<close>, \<open>done_query\<close>; \<open>serve\<close>,
    a run of requests served in sequence (the server's loop, not code of the
    sources).
  \<^item> \<open>Admin\<close>: the \<open>list_display\<close> columns and the administrator's edits:
    the completion flag (\<open>admin_set_completed\<close>), a whole task
    (\<open>admin_change_task\<close>), deleting a task (\<open>admin_delete_task\<close>) and a category
    (\<open>admin_delete_category\<close>, under \<open>CASCADE\<close> or \<open>PROTECT\<close>).
  \<^item> \<open>Tests\<close>: the test methods of \<open>test_forms.py\<close>, \<open>test_models.py\<close> and
    \<open>test_views.py\<close> as booleans over their \<open>setUp\<close> datastore (all but
    \<open>test_due_date_required\<close>, whose type check the model's \<open>date\<close> type makes vacuous), and the witnesses of
    the component claims, built from the tests' data.
  \<^item> this theory: the whole system as a step relation (\<open>step\<close>: a request, a new
    category, an admin add, change or deletion; \<open>user_step\<close> without the admin),
    its reachable states, and the properties that span components.

  \<^emph>\<open>What is proved.\<close>  The view's behaviour on each branch (C1, C2, C8, C9) and its
  refinement of the specification's list-and-create service (C12); per-field,
  non-short-circuit validation (C3) with its error paths (C4, C5); that the two
  lists partition the tasks (C6) and are sorted by due date (C7); the invariants of
  every reachable state, by rule induction (no orphan task, validated titles and
  dates, C10) and that without the admin the done list stays empty (C11); the round
  trips of \<open>strptime\<close>/\<open>isoformat\<close> (C13) and \<open>int\<close>/\<open>str\<close> (C15); that on ISO
  input the date field accepts exactly the proleptic Gregorian calendar, stated
  with the month lengths and the leap rule written out rather than through the
  model's own \<open>is_leap\<close> (C14); of the eleven date formats, that a dashed value is
  read by the ISO format alone (C16, an equivalence), the two-digit-year pivot
  (C17) and case-insensitive month names (C18); that cleaned data is well typed
  (C19); progress: from every reachable state with a category a valid task can be
  added and shows in the to-do list (C20); and that any run of requests
  (\<open>serve\<close>) refines the service: one appended, validated task with the next key
  per 302 (C21).  \<open>Tests\<close> also replays the repository's test methods on the model
  as regression lemmas; they are evaluations, not properties, and
  \<open>objects_create_skips_validation\<close> among them records that
  \<open>test_title_max_length_error\<close> cannot pass.  Facts that hold only by the
  specification's description of \<open>models.py\<close> (distinct keys from the
  auto-increment counter, the redundancy of \<open>_post_clean\<close>'s model validation,
  the default of \<open>completed\<close>) are lemmas, not properties.
  Every theorem with a hypothesis has a witness at a concrete input, evaluated in
  the kernel by \<open>simp\<close> or \<open>code_simp\<close>.

  \<^emph>\<open>Choices and bounds.\<close>  No function needs fuel: every recursion is structural
  or by \<open>fun\<close> with an automatic measure (\<open>show_nat\<close> divides by 10), and
  \<open>fmt_items\<close> (\<open>TimeRE.pattern\<close>) is a \<open>function\<close> with the measure \<open>length\<close>.
  The program has no loop that may fail to end (Python's regular-expression
  backtracking over a fixed pattern and Django's loops over fields and formats
  are all bounded), so termination is by construction and no claim of that
  kind is stated.  Strings hold
  code points 0 to 255.  Ties of \<open>ORDER BY due_date\<close> are left to the database
  by the code; the model breaks them by primary key (a stable sort), and no
  property depends on that choice.  The language is \<open>en-us\<close> (Django's default; the
  settings are not among the sources), so \<open>DateField\<close> tries the English formats;
  month names are those of the C locale.  The \<open>on_delete\<close> policy of
  \<open>Task.category\<close> is not in the sources: both integrity-keeping policies are
  steps.  The admin's add and change forms are modelled by their outcome: the
  step is guarded by the field checks the form performs.  \<open>_post_clean\<close> validates
  the cleaned values with the model's \<open>title\<close> and \<open>category\<close> constraints, the
  only model fields of the form that carry validators.

  \<^emph>\<open>Not modelled.\<close>  Templates and rendering, URL routing and \<open>reverse\<close>, CSRF and
  authentication middleware, the superuser and login of \<open>test_views.setUp\<close>, the
  database engine (atomicity, isolation, faults), the admin's form rendering and
  its error messages, \<open>strptime\<close> directives other than the date ones the
  English formats use, and code points above 255.
  The parts above are everything of the sources that changes state or decides a
  response; what remains is rendering and infrastructure outside the sources.
\<close>

section \<open>The system as a state machine\<close>

text \<open>
  One step of the whole system: a request served by the view, a category created
  (by the administrator or any other client of the datastore), or one of the
  administrator's edits: marking a task done or not done, adding or changing a task
  through the admin's validated form (any completion flag), deleting a task, or
  deleting a category under either \<open>on_delete\<close> policy.  \<open>user_step\<close> leaves the
  administrator out.
\<close>

inductive step :: "store \<Rightarrow> store \<Rightarrow> bool" where
  request: "index s req = (r, s') \<Longrightarrow> step s s'"
| add_category: "step s (fst (category_create s n))"
| set_completed: "i < length (tasks s) \<Longrightarrow> step s (admin_set_completed s i b)"
| add_task: "title_ok ti \<Longrightarrow> valid_date dd \<Longrightarrow> ca \<in> set (category_ids s) \<Longrightarrow>
    step s (fst (task_create s ti dd co ca))"
| change_task: "title_ok ti \<Longrightarrow> valid_date dd \<Longrightarrow> ca \<in> set (category_ids s) \<Longrightarrow>
    step s (admin_change_task s k ti dd co ca)"
| delete_task: "step s (admin_delete_task s k)"
| delete_category: "admin_delete_category pol s k = Inr s' \<Longrightarrow> step s s'"

inductive reachable :: "store \<Rightarrow> bool" where
  init: "reachable empty_store"
| later: "reachable s \<Longrightarrow> step s s' \<Longrightarrow> reachable s'"

inductive user_step :: "store \<Rightarrow> store \<Rightarrow> bool" where
  request: "index s req = (r, s') \<Longrightarrow> user_step s s'"
| add_category: "user_step s (fst (category_create s n))"

inductive user_reachable :: "store \<Rightarrow> bool" where
  init: "user_reachable empty_store"
| later: "user_reachable s \<Longrightarrow> user_step s s' \<Longrightarrow> user_reachable s'"

section \<open>Invariants of the reachable states\<close>

lemma index_store:
  assumes "index s req = (r, s')"
  shows "s' = s \<or>
         (\<exists>ti dd k. title_ok ti \<and> valid_date dd \<and> k \<in> set (category_ids s) \<and>
            s' = fst (task_create s ti dd False k))"
proof (cases "request_method req = ''POST'' \<and> form_is_valid (task_form s (post_data req))")
  case True
  then show ?thesis using assms index_valid_post [of req s] by auto
next
  case False
  then show ?thesis using assms index_other [of req s] by simp
qed

lemma wf_store_set_completed:
  assumes "wf_store s" "i < length (tasks s)"
  shows "wf_store (admin_set_completed s i b)"
proof -
  let ?xs = "(tasks s)[i := (tasks s ! i)\<lparr>completed := b\<rparr>]"
  have ids: "map task_id ?xs = map task_id (tasks s)"
    using assms(2) by (simp add: map_update) (metis list_update_id nth_map)
  have "\<forall>t \<in> set ?xs. \<exists>u \<in> set (tasks s). task_id t = task_id u \<and> title t = title u \<and>
          due_date t = due_date u \<and> task_category t = task_category u"
    using assms(2) by (auto simp: set_conv_nth nth_list_update)
  then show ?thesis using assms(1) ids
    by (auto simp: admin_set_completed_def wf_store_def category_ids_def list_all_iff)
qed

lemma step_wf: "step s s' \<Longrightarrow> wf_store s \<Longrightarrow> wf_store s'"
proof (induction rule: step.induct)
  case (request s req r s')
  then show ?case by (auto dest!: index_store intro: wf_store_task_create)
next
  case (add_category s n)
  then show ?case by (rule wf_store_category_create)
next
  case (set_completed i s b)
  then show ?case by (intro wf_store_set_completed)
next
  case (add_task ti dd ca s co)
  then show ?case by (simp add: wf_store_task_create)
next
  case (change_task ti dd ca s k co)
  then show ?case by (simp add: wf_store_change_task)
next
  case (delete_task s k)
  then show ?case by (rule wf_store_delete_task)
next
  case (delete_category pol s k s')
  then show ?case by (blast intro: wf_store_delete_category)
qed

lemma reachable_wf: "reachable s \<Longrightarrow> wf_store s"
  by (induction rule: reachable.induct) (auto simp: wf_store_empty intro: step_wf)

text \<open>
  C10. In every state reachable from the empty database by requests to the view and
  by the administrator's edits, every task refers to an existing category (no orphan
  task), has a title that passed validation (non-empty, stripped, at most 100 code
  points, no NUL) and a valid due date.
\<close>

theorem reachable_no_orphans:
  assumes "reachable s" "t \<in> set (tasks s)"
  shows "task_category t \<in> set (category_ids s) \<and> title_ok (title t) \<and> valid_date (due_date t)"
  using reachable_wf [OF assms(1)] assms(2) by (auto simp: wf_store_def list_all_iff)

lemma user_step_uncompleted:
  "user_step s s' \<Longrightarrow> list_all (\<lambda>t. \<not> completed t) (tasks s) \<Longrightarrow> list_all (\<lambda>t. \<not> completed t) (tasks s')"
proof (induction rule: user_step.induct)
  case (request s req r s')
  then show ?case by (auto dest!: index_store)
next
  case (add_category s n)
  then show ?case by (simp add: category_create_def Let_def)
qed

text \<open>
  C11. Without the administrator, the done list stays empty: the view is the only way
  users create tasks, and it never creates a completed one.
\<close>

theorem user_reachable_done_empty:
  "user_reachable s \<Longrightarrow> done_query s = []"
proof -
  assume "user_reachable s"
  then have "list_all (\<lambda>t. \<not> completed t) (tasks s)"
    by (induction rule: user_reachable.induct) (auto simp: empty_store_def intro: user_step_uncompleted)
  then show ?thesis by (simp add: done_query_def list_all_iff filter_empty_conv)
qed


text \<open>
  C12. The view refines the list-and-create service of the specification: either it
  answers with the redirect after adding exactly one new, uncompleted, validated task
  with the next key, or it renders the current to-do and done lists and changes
  nothing.
\<close>

theorem index_refines_service:
  assumes "index s req = (r, s')"
  shows "(\<exists>t. r = Redirect ''tasks:index'' \<and> tasks s' = tasks s @ [t] \<and> task_id t = next_task_id s \<and>
              \<not> completed t \<and> title_ok (title t) \<and> valid_date (due_date t) \<and>
              task_category t \<in> set (category_ids s)) \<or>
         (\<exists>n c. r = Render n c \<and> s' = s \<and> to_do_tasks c = to_do_query s \<and> done_tasks c = done_query s)"
proof (cases "request_method req = ''POST'' \<and> form_is_valid (task_form s (post_data req))")
  case True
  then obtain ti dd k where "title_ok ti" "valid_date dd" "k \<in> set (category_ids s)"
      "index s req = (Redirect ''tasks:index'', fst (task_create s ti dd False k))"
    using index_valid_post by blast
  then show ?thesis using assms by auto
next
  case False
  then show ?thesis using assms index_other [of req s] by (auto simp: index_context_def)
qed

text \<open>
  C20. Progress: from every reachable state with a category, any valid title and
  date can be added.  Posting them (the date in ISO form, the category by its key)
  is a step of the system to a reachable state whose to-do list shows the new task.
\<close>

theorem reachable_progress:
  assumes "reachable s" "c \<in> set (categories s)" "title_ok ti" "valid_date dd"
  shows "\<exists>req r s'. index s req = (r, s') \<and> reachable s' \<and>
           (\<exists>t \<in> set (to_do_query s'). title t = ti \<and> due_date t = dd \<and> task_category t = category_id c)"
proof -
  let ?req = "\<lparr>request_method = ''POST'',
               post_data = [(''title'', ti), (''due_date'', date_isoformat dd), (''category'', show_nat (category_id c))]\<rparr>"
  let ?s' = "fst (task_create s ti dd False (category_id c))"
  have i: "index s ?req = (Redirect ''tasks:index'', ?s')"
    using index_post_fields [OF assms(3,4,2)] .
  then have "reachable ?s'" using assms(1) by (blast intro: reachable.later step.request)
  moreover have "\<exists>t \<in> set (to_do_query ?s'). title t = ti \<and> due_date t = dd \<and> task_category t = category_id c"
    by (auto simp: to_do_query_def)
  ultimately show ?thesis using i by blast
qed

section \<open>Witnesses\<close>

lemma reachable_example: "reachable (snd (index (fst (category_create empty_store ''Test Category'')) (view_post ''New Task'')))"
proof -
  have "reachable (fst (category_create empty_store ''Test Category''))"
    by (rule reachable.later [OF reachable.init step.add_category])
  then show ?thesis by (rule reachable.later [OF _ step.request [OF prod.collapse [symmetric]]])
qed

lemma user_reachable_example: "user_reachable (snd (index (fst (category_create empty_store ''Test Category'')) (view_post ''New Task'')))"
proof -
  have "user_reachable (fst (category_create empty_store ''Test Category''))"
    by (rule user_reachable.later [OF user_reachable.init user_step.add_category])
  then show ?thesis by (rule user_reachable.later [OF _ user_step.request [OF prod.collapse [symmetric]]])
qed

lemma example_task_mem: "\<lparr>task_id = 1, title = ''New Task'', due_date = Date 2024 11 30, completed = False, task_category = 1\<rparr> \<in> set (tasks (snd (index (fst (category_create empty_store ''Test Category'')) (view_post ''New Task''))))"
  by code_simp

theorem reachable_no_orphans_witness:
  "reachable (snd (index (fst (category_create empty_store ''Test Category'')) (view_post ''New Task''))) \<and> \<lparr>task_id = 1, title = ''New Task'', due_date = Date 2024 11 30, completed = False, task_category = 1\<rparr> \<in> set (tasks (snd (index (fst (category_create empty_store ''Test Category'')) (view_post ''New Task'')))) \<and>
   task_category (\<lparr>task_id = 1, title = ''New Task'', due_date = Date 2024 11 30, completed = False, task_category = 1\<rparr>) \<in> set (category_ids (snd (index (fst (category_create empty_store ''Test Category'')) (view_post ''New Task'')))) \<and> title_ok (title (\<lparr>task_id = 1, title = ''New Task'', due_date = Date 2024 11 30, completed = False, task_category = 1\<rparr>)) \<and> valid_date (due_date (\<lparr>task_id = 1, title = ''New Task'', due_date = Date 2024 11 30, completed = False, task_category = 1\<rparr>))"
  using reachable_no_orphans [OF reachable_example example_task_mem] reachable_example example_task_mem
  by blast

theorem user_reachable_done_empty_witness:
  "user_reachable (snd (index (fst (category_create empty_store ''Test Category'')) (view_post ''New Task''))) \<and> done_query (snd (index (fst (category_create empty_store ''Test Category'')) (view_post ''New Task''))) = []"
  using user_reachable_done_empty [OF user_reachable_example] user_reachable_example by blast

theorem index_refines_service_witness:
  "index (fst (category_create empty_store ''Test Category'')) (view_post ''New Task'') =
     (fst (index (fst (category_create empty_store ''Test Category'')) (view_post ''New Task'')), snd (index (fst (category_create empty_store ''Test Category'')) (view_post ''New Task''))) \<and>
   ((\<exists>t. fst (index (fst (category_create empty_store ''Test Category'')) (view_post ''New Task'')) = Redirect ''tasks:index'' \<and>
        tasks (snd (index (fst (category_create empty_store ''Test Category'')) (view_post ''New Task''))) = tasks (fst (category_create empty_store ''Test Category'')) @ [t] \<and>
        task_id t = next_task_id (fst (category_create empty_store ''Test Category'')) \<and>
        \<not> completed t \<and> title_ok (title t) \<and> valid_date (due_date t) \<and>
        task_category t \<in> set (category_ids (fst (category_create empty_store ''Test Category'')))) \<or>
    (\<exists>n c. fst (index (fst (category_create empty_store ''Test Category'')) (view_post ''New Task'')) = Render n c \<and>
        snd (index (fst (category_create empty_store ''Test Category'')) (view_post ''New Task'')) = fst (category_create empty_store ''Test Category'') \<and>
        to_do_tasks c = to_do_query (fst (category_create empty_store ''Test Category'')) \<and>
        done_tasks c = done_query (fst (category_create empty_store ''Test Category''))))"
  using index_refines_service [OF prod.collapse [symmetric]] by simp

theorem reachable_progress_witness:
  "reachable (fst (category_create empty_store ''Test Category'')) \<and>
   \<lparr>category_id = 1, category_name = ''Test Category''\<rparr> \<in> set (categories (fst (category_create empty_store ''Test Category''))) \<and>
   title_ok ''Buy milk'' \<and> valid_date (Date 2025 1 2) \<and>
   (\<exists>req r s'. index (fst (category_create empty_store ''Test Category'')) req = (r, s') \<and> reachable s' \<and>
      (\<exists>t \<in> set (to_do_query s'). title t = ''Buy milk'' \<and> due_date t = Date 2025 1 2 \<and>
         task_category t = category_id \<lparr>category_id = 1, category_name = ''Test Category''\<rparr>))"
proof -
  have h1: "reachable (fst (category_create empty_store ''Test Category''))"
    by (rule reachable.later [OF reachable.init step.add_category])
  have h2: "\<lparr>category_id = 1, category_name = ''Test Category''\<rparr> \<in> set (categories (fst (category_create empty_store ''Test Category'')))"
    by code_simp
  have h3: "title_ok ''Buy milk''" by code_simp
  have h4: "valid_date (Date 2025 1 2)" by code_simp
  show ?thesis using reachable_progress [OF h1 h2 h3 h4] h1 h2 h3 h4 by blast
qed

end
